theory Spec2Isabelle
  imports Main "HOL-Library.Word"
begin

unbundle bit_operations_syntax

section \<open>Channel proposal messages of go-perun (client/proposalmsgs.go)\<close>

text \<open>
  The embedding follows \<^verbatim>\<open>client/proposalmsgs.go\<close>. An \<^verbatim>\<open>io.Writer\<close> is the list
  of bytes written so far, an \<^verbatim>\<open>io.Reader\<close> the list of bytes still to be read. A Go
  function returning \<^verbatim>\<open>error\<close> returns an \<open>error option\<close> (\<open>None\<close> is
  \<^verbatim>\<open>nil\<close>) together with the new state of everything it may have changed: the
  writer, the reader, the receiver behind a pointer. A Go function returning
  \<^verbatim>\<open>(T, error)\<close> returns both components, as Go does. A nil pointer, a nil interface
  value and a nil \<^verbatim>\<open>*big.Int\<close> are \<open>None\<close>.
\<close>

subsection \<open>Bytes, errors\<close>

type_synonym byte = "8 word"
type_synonym writer = "byte list"
type_synonym reader = "byte list"

text \<open>
  Go's \<^verbatim>\<open>error\<close> values. \<open>Errorf fmt args\<close> is \<^verbatim>\<open>errors.Errorf(fmt, args...)\<close>
  (all arguments in this file are integers printed with \<^verbatim>\<open>%d\<close>);
  \<open>WithMessage err msg\<close> is \<^verbatim>\<open>errors.WithMessage(err, msg)\<close>, which keeps
  \<open>err\<close> as its cause; \<open>External s\<close> is an error made outside this package (by a
  codec, the reader or the writer). \<open>Panic s\<close> is not a returned error: it stands for
  a run-time panic (a method called on a nil interface value), which unwinds the call.
\<close>

datatype error =
    Errorf string "int list"
  | WithMessage error string
  | External string
  | Panic string

text \<open>The chain of causes of an error, outermost first (\<^verbatim>\<open>errors.Cause\<close> follows it).\<close>

fun causes :: "error \<Rightarrow> error list" where
  "causes (WithMessage err msg) = WithMessage err msg # causes err"
| "causes e = [e]"

text \<open>\<^verbatim>\<open>math.MaxInt32\<close>.\<close>

definition MaxInt32 :: int where
  "MaxInt32 = 2147483647"

subsection \<open>Messages\<close>

text \<open>\<^verbatim>\<open>type SessionID = [32]byte\<close>: a list of bytes, of length 32 in the program.\<close>

type_synonym SessionID = "byte list"

record ('addr, 'data, 'alloc) ChannelProposal =
  ChallengeDuration :: "64 word"
  Nonce :: "int option"
  ParticipantAddr :: "'addr option"
  AppDef :: "'addr option"
  InitData :: "'data option"
  InitBals :: "'alloc option"
  Parts :: "'addr option list"

record 'addr ChannelProposalAcc =
  Acc_SessID :: SessionID
  Acc_ParticipantAddr :: "'addr option"

record ChannelProposalRej =
  Rej_SessID :: SessionID
  Rej_Reason :: string

text \<open>
  The zero values \<^verbatim>\<open>var m ChannelProposal\<close>, \<^verbatim>\<open>var m ChannelProposalAcc\<close>,
  \<^verbatim>\<open>var m ChannelProposalRej\<close>. A nil slice is the empty list.
\<close>

definition ChannelProposal_zero :: "('addr, 'data, 'alloc) ChannelProposal" where
  "ChannelProposal_zero =
     \<lparr>ChallengeDuration = 0, Nonce = None, ParticipantAddr = None, AppDef = None,
      InitData = None, InitBals = None, Parts = []\<rparr>"

definition ChannelProposalAcc_zero :: "'addr ChannelProposalAcc" where
  "ChannelProposalAcc_zero = \<lparr>Acc_SessID = replicate 32 0, Acc_ParticipantAddr = None\<rparr>"

definition ChannelProposalRej_zero :: "ChannelProposalRej" where
  "ChannelProposalRej_zero = \<lparr>Rej_SessID = replicate 32 0, Rej_Reason = []\<rparr>"

subsection \<open>The packages this file calls\<close>

text \<open>
  \<^verbatim>\<open>wire.Encode\<close>, \<^verbatim>\<open>wire.Decode\<close>, \<^verbatim>\<open>perunio.Encode\<close>, \<^verbatim>\<open>perunio.Decode\<close>,
  \<^verbatim>\<open>wallet.DecodeAddress\<close>, \<^verbatim>\<open>wallet.Address.Encode\<close>,
  \<^verbatim>\<open>channel.AppFromDefinition\<close> and \<^verbatim>\<open>channel.App.DecodeData\<close> are not part of the
  file: they are parameters, one field for each call shape of the file (the variadic
  \<^verbatim>\<open>wire.Encode\<close> is called with four different argument lists). Nothing is assumed
  about them in the definitions. An encoder gets the value and the writer and returns its
  error and the writer after it. A \<^verbatim>\<open>wire.Decode\<close> gets the current values behind
  its pointer arguments and the reader and returns its error, the values behind the
  pointers afterwards, and the reader after it.
\<close>

record ('addr, 'data, 'alloc, 'app) externals =
  wire_Encode_uint64_bigInt :: "64 word \<Rightarrow> int option \<Rightarrow> writer \<Rightarrow> error option \<times> writer"
  wire_Encode_int32 :: "32 word \<Rightarrow> writer \<Rightarrow> error option \<times> writer"
  wire_Encode_SessionID :: "SessionID \<Rightarrow> writer \<Rightarrow> error option \<times> writer"
  wire_Encode_SessionID_string :: "SessionID \<Rightarrow> string \<Rightarrow> writer \<Rightarrow> error option \<times> writer"
  perunio_Encode ::
    "'addr option \<Rightarrow> 'addr option \<Rightarrow> 'data option \<Rightarrow> 'alloc option \<Rightarrow> writer
      \<Rightarrow> error option \<times> writer"
  Address_Encode :: "'addr \<Rightarrow> writer \<Rightarrow> error option \<times> writer"
  wire_Decode_uint64_bigInt ::
    "64 word \<Rightarrow> int option \<Rightarrow> reader \<Rightarrow> (error option \<times> 64 word \<times> int option) \<times> reader"
  wire_Decode_int32 :: "32 word \<Rightarrow> reader \<Rightarrow> (error option \<times> 32 word) \<times> reader"
  wire_Decode_SessionID :: "SessionID \<Rightarrow> reader \<Rightarrow> (error option \<times> SessionID) \<times> reader"
  wire_Decode_SessionID_string ::
    "SessionID \<Rightarrow> string \<Rightarrow> reader \<Rightarrow> (error option \<times> SessionID \<times> string) \<times> reader"
  wallet_DecodeAddress :: "reader \<Rightarrow> ('addr option \<times> error option) \<times> reader"
  channel_AppFromDefinition :: "'addr option \<Rightarrow> 'app option \<times> error option"
  App_DecodeData :: "'app \<Rightarrow> reader \<Rightarrow> ('data option \<times> error option) \<times> reader"
  Allocation_zero :: "'alloc"
  perunio_Decode_Allocation :: "'alloc \<Rightarrow> reader \<Rightarrow> (error option \<times> 'alloc) \<times> reader"

subsection \<open>ChannelProposal.Encode\<close>

text \<open>
  The loop \<^verbatim>\<open>for i := range c.Parts\<close> from index \<open>i\<close> on; the list is the rest of
  \<^verbatim>\<open>c.Parts\<close> from \<open>i\<close>. Calling \<^verbatim>\<open>Encode\<close> on a nil interface value panics.
\<close>

fun encodeParts ::
  "('addr, 'data, 'alloc, 'app) externals \<Rightarrow> 'addr option list \<Rightarrow> nat \<Rightarrow> writer
    \<Rightarrow> error option \<times> writer" where
  "encodeParts x [] i w = (None, w)"
| "encodeParts x (None # ps) i w = (Some (Panic ''nil pointer dereference''), w)"
| "encodeParts x (Some a # ps) i w =
     (case Address_Encode x a w of
        (Some err, w') \<Rightarrow> (Some (Errorf ''error encoding participant %d'' [int i]), w')
      | (None, w') \<Rightarrow> encodeParts x ps (Suc i) w')"

text \<open>
  \<^verbatim>\<open>len(c.Parts)\<close> is a Go \<^verbatim>\<open>int\<close>; the length of a slice always fits, so it is the
  integer \<open>int (length (Parts c))\<close>. The conversion \<^verbatim>\<open>int32(len(c.Parts))\<close> keeps the
  low 32 bits.
\<close>

definition ChannelProposal_Encode ::
  "('addr, 'data, 'alloc, 'app) externals \<Rightarrow> ('addr, 'data, 'alloc) ChannelProposal \<Rightarrow> writer
    \<Rightarrow> error option \<times> writer" where
  "ChannelProposal_Encode x c w =
     (case wire_Encode_uint64_bigInt x (ChallengeDuration c) (Nonce c) w of
        (Some err, w1) \<Rightarrow> (Some err, w1)
      | (None, w1) \<Rightarrow>
     (case perunio_Encode x (ParticipantAddr c) (AppDef c) (InitData c) (InitBals c) w1 of
        (Some err, w2) \<Rightarrow> (Some err, w2)
      | (None, w2) \<Rightarrow>
     if int (length (Parts c)) > MaxInt32
     then (Some (Errorf ''expected maximum number of participants %d, got %d''
                   [MaxInt32, int (length (Parts c))]), w2)
     else
       let numParts = (word_of_nat (length (Parts c)) :: 32 word) in
       (case wire_Encode_int32 x numParts w2 of
          (Some err, w3) \<Rightarrow> (Some err, w3)
        | (None, w3) \<Rightarrow> encodeParts x (Parts c) 0 w3)))"

subsection \<open>ChannelProposal.Decode\<close>

text \<open>
  The loop \<^verbatim>\<open>for i := 0; i < len(c.Parts); i++\<close>. The assignment
  \<^verbatim>\<open>c.Parts[i], err = wallet.DecodeAddress(r)\<close> stores the returned address before
  \<^verbatim>\<open>err\<close> is looked at.
\<close>

function decodeParts ::
  "('addr, 'data, 'alloc, 'app) externals \<Rightarrow> 'addr option list \<Rightarrow> nat \<Rightarrow> reader
    \<Rightarrow> error option \<times> 'addr option list \<times> reader" where
  "decodeParts x parts i r =
     (if i < length parts
      then (case wallet_DecodeAddress x r of
              ((a, Some err), r') \<Rightarrow> (Some err, parts[i := a], r')
            | ((a, None), r') \<Rightarrow> decodeParts x (parts[i := a]) (Suc i) r')
      else (None, parts, r))"
  by pat_completeness auto
termination
  by (relation "measure (\<lambda>(x, parts, i, r). length parts - i)") auto

text \<open>
  \<open>ChannelProposal_Decode x c r\<close> is \<^verbatim>\<open>c.Decode(r)\<close>: the error, the receiver \<^verbatim>\<open>*c\<close> afterwards
  and the reader afterwards. \<^verbatim>\<open>numParts < 2\<close> compares signed 32-bit integers;
  \<^verbatim>\<open>make([]wallet.Address, numParts)\<close> is \<open>numParts\<close> nil addresses.
\<close>

definition ChannelProposal_Decode ::
  "('addr, 'data, 'alloc, 'app) externals \<Rightarrow> ('addr, 'data, 'alloc) ChannelProposal \<Rightarrow> reader
    \<Rightarrow> error option \<times> ('addr, 'data, 'alloc) ChannelProposal \<times> reader" where
  "ChannelProposal_Decode x c r =
     (case wire_Decode_uint64_bigInt x (ChallengeDuration c) (Nonce c) r of
        ((err0, d, n), r1) \<Rightarrow>
     let c1 = c\<lparr>ChallengeDuration := d, Nonce := n\<rparr> in
     (case err0 of Some err \<Rightarrow> (Some err, c1, r1) | None \<Rightarrow>
     (case wallet_DecodeAddress x r1 of
        ((pa, err1), r2) \<Rightarrow>
     let c2 = c1\<lparr>ParticipantAddr := pa\<rparr> in
     (case err1 of Some err \<Rightarrow> (Some err, c2, r2) | None \<Rightarrow>
     (case wallet_DecodeAddress x r2 of
        ((ad, err2), r3) \<Rightarrow>
     let c3 = c2\<lparr>AppDef := ad\<rparr> in
     (case err2 of Some err \<Rightarrow> (Some err, c3, r3) | None \<Rightarrow>
     (case channel_AppFromDefinition x (AppDef c3) of
        (app, Some err) \<Rightarrow> (Some err, c3, r3)
      | (None, None) \<Rightarrow> (Some (Panic ''nil pointer dereference''), c3, r3)
      | (Some app, None) \<Rightarrow>
     (case App_DecodeData x app r3 of
        ((dat, err4), r4) \<Rightarrow>
     let c4 = c3\<lparr>InitData := dat\<rparr> in
     (case err4 of Some err \<Rightarrow> (Some err, c4, r4) | None \<Rightarrow>
     (case perunio_Decode_Allocation x (Allocation_zero x) r4 of
        ((err5, bals), r5) \<Rightarrow>
     let c5 = c4\<lparr>InitBals := Some bals\<rparr> in
     (case err5 of Some err \<Rightarrow> (Some err, c5, r5) | None \<Rightarrow>
     (case wire_Decode_int32 x 0 r5 of
        ((err6, numParts), r6) \<Rightarrow>
     (case err6 of Some err \<Rightarrow> (Some err, c5, r6) | None \<Rightarrow>
     if numParts <s 2
     then (Some (Errorf ''expected at least 2 participants, got %d'' [sint numParts]), c5, r6)
     else
       let c6 = c5\<lparr>Parts := replicate (nat (sint numParts)) None\<rparr> in
       (case decodeParts x (Parts c6) 0 r6 of
          (err7, parts, r7) \<Rightarrow> (err7, c6\<lparr>Parts := parts\<rparr>, r7)))))))))))))))"

subsection \<open>ChannelProposalAcc\<close>

definition ChannelProposalAcc_Encode ::
  "('addr, 'data, 'alloc, 'app) externals \<Rightarrow> 'addr ChannelProposalAcc \<Rightarrow> writer
    \<Rightarrow> error option \<times> writer" where
  "ChannelProposalAcc_Encode x acc w =
     (case wire_Encode_SessionID x (Acc_SessID acc) w of
        (Some err, w1) \<Rightarrow> (Some (WithMessage err ''SID encoding''), w1)
      | (None, w1) \<Rightarrow>
     (case Acc_ParticipantAddr acc of
        None \<Rightarrow> (Some (Panic ''nil pointer dereference''), w1)
      | Some a \<Rightarrow>
     (case Address_Encode x a w1 of
        (Some err, w2) \<Rightarrow> (Some (WithMessage err ''participant address encoding''), w2)
      | (None, w2) \<Rightarrow> (None, w2))))"

definition ChannelProposalAcc_Decode ::
  "('addr, 'data, 'alloc, 'app) externals \<Rightarrow> 'addr ChannelProposalAcc \<Rightarrow> reader
    \<Rightarrow> error option \<times> 'addr ChannelProposalAcc \<times> reader" where
  "ChannelProposalAcc_Decode x acc r =
     (case wire_Decode_SessionID x (Acc_SessID acc) r of
        ((err0, sid), r1) \<Rightarrow>
     let acc1 = acc\<lparr>Acc_SessID := sid\<rparr> in
     (case err0 of
        Some err \<Rightarrow> (Some (WithMessage err ''SID decoding''), acc1, r1)
      | None \<Rightarrow>
     (case wallet_DecodeAddress x r1 of
        ((pa, err1), r2) \<Rightarrow>
     let acc2 = acc1\<lparr>Acc_ParticipantAddr := pa\<rparr> in
     (case err1 of
        Some err \<Rightarrow> (Some (WithMessage err ''participant address decoding''), acc2, r2)
      | None \<Rightarrow> (None, acc2, r2)))))"

subsection \<open>ChannelProposalRej\<close>

definition ChannelProposalRej_Encode ::
  "('addr, 'data, 'alloc, 'app) externals \<Rightarrow> ChannelProposalRej \<Rightarrow> writer
    \<Rightarrow> error option \<times> writer" where
  "ChannelProposalRej_Encode x rej w =
     wire_Encode_SessionID_string x (Rej_SessID rej) (Rej_Reason rej) w"

definition ChannelProposalRej_Decode ::
  "('addr, 'data, 'alloc, 'app) externals \<Rightarrow> ChannelProposalRej \<Rightarrow> reader
    \<Rightarrow> error option \<times> ChannelProposalRej \<times> reader" where
  "ChannelProposalRej_Decode x rej r =
     (case wire_Decode_SessionID_string x (Rej_SessID rej) (Rej_Reason rej) r of
        ((err, sid, reason), r1) \<Rightarrow> (err, rej\<lparr>Rej_SessID := sid, Rej_Reason := reason\<rparr>, r1))"

subsection \<open>The decoders registered by init\<close>

text \<open>
  The message types of \<^verbatim>\<open>msg.Type\<close> this file names, and \<^verbatim>\<open>msg.Msg\<close> restricted to
  the three messages of this file. \<open>init_decoder x t\<close> is the function \<^verbatim>\<open>init\<close> hands
  to \<^verbatim>\<open>msg.RegisterDecoder\<close> for the type \<open>t\<close>: it declares a zero message, calls its
  \<^verbatim>\<open>Decode\<close> and returns the pointer to the message together with the error.
\<close>

datatype msg_Type = msg_ChannelProposal | msg_ChannelProposalAcc | msg_ChannelProposalRej

datatype ('addr, 'data, 'alloc) Msg =
    Msg_ChannelProposal "('addr, 'data, 'alloc) ChannelProposal"
  | Msg_ChannelProposalAcc "'addr ChannelProposalAcc"
  | Msg_ChannelProposalRej ChannelProposalRej

fun Type :: "('addr, 'data, 'alloc) Msg \<Rightarrow> msg_Type" where
  "Type (Msg_ChannelProposal m) = msg_ChannelProposal"
| "Type (Msg_ChannelProposalAcc m) = msg_ChannelProposalAcc"
| "Type (Msg_ChannelProposalRej m) = msg_ChannelProposalRej"

fun init_decoder ::
  "('addr, 'data, 'alloc, 'app) externals \<Rightarrow> msg_Type \<Rightarrow> reader
    \<Rightarrow> (('addr, 'data, 'alloc) Msg \<times> error option) \<times> reader" where
  "init_decoder x msg_ChannelProposal r =
     (case ChannelProposal_Decode x ChannelProposal_zero r of
        (err, m, r') \<Rightarrow> ((Msg_ChannelProposal m, err), r'))"
| "init_decoder x msg_ChannelProposalAcc r =
     (case ChannelProposalAcc_Decode x ChannelProposalAcc_zero r of
        (err, m, r') \<Rightarrow> ((Msg_ChannelProposalAcc m, err), r'))"
| "init_decoder x msg_ChannelProposalRej r =
     (case ChannelProposalRej_Decode x ChannelProposalRej_zero r of
        (err, m, r') \<Rightarrow> ((Msg_ChannelProposalRej m, err), r'))"

section \<open>An instance of the external packages\<close>

text \<open>
  A small big-endian codec that instantiates every parameter, for evaluating the
  functions above on concrete messages and buffers.
\<close>

text \<open>\<^verbatim>\<open>io.EOF\<close>: the input ended.\<close>

definition io_EOF :: error where
  "io_EOF = External ''EOF''"

definition ex_enc64 :: "64 word \<Rightarrow> byte list" where
  "ex_enc64 d = map (\<lambda>k. ucast (drop_bit (8 * k) d)) [7, 6, 5, 4, 3, 2, 1, 0]"

fun ex_dec64 :: "byte list \<Rightarrow> (64 word \<times> byte list) option" where
  "ex_dec64 (b7 # b6 # b5 # b4 # b3 # b2 # b1 # b0 # r) =
     Some (push_bit 56 (ucast b7) OR push_bit 48 (ucast b6) OR push_bit 40 (ucast b5)
           OR push_bit 32 (ucast b4) OR push_bit 24 (ucast b3) OR push_bit 16 (ucast b2)
           OR push_bit 8 (ucast b1) OR ucast b0, r)"
| "ex_dec64 r = None"

definition ex_enc32 :: "32 word \<Rightarrow> byte list" where
  "ex_enc32 d = map (\<lambda>k. ucast (drop_bit (8 * k) d)) [3, 2, 1, 0]"

fun ex_dec32 :: "byte list \<Rightarrow> (32 word \<times> byte list) option" where
  "ex_dec32 (b3 # b2 # b1 # b0 # r) =
     Some (push_bit 24 (ucast b3) OR push_bit 16 (ucast b2) OR push_bit 8 (ucast b1) OR ucast b0, r)"
| "ex_dec32 r = None"

text \<open>A big integer: one byte, the number of bytes of the magnitude, then the magnitude, big-endian.\<close>

fun ex_nat_bytes :: "nat \<Rightarrow> byte list" where
  "ex_nat_bytes n = (if n = 0 then [] else ex_nat_bytes (n div 256) @ [of_nat (n mod 256)])"

definition ex_bytes_nat :: "byte list \<Rightarrow> nat" where
  "ex_bytes_nat bs = foldl (\<lambda>acc b. acc * 256 + unat b) 0 bs"

definition ex_encBig :: "int option \<Rightarrow> error + byte list" where
  "ex_encBig n =
     (case n of
        None \<Rightarrow> Inl (Panic ''nil pointer dereference'')
      | Some k \<Rightarrow>
          if k < 0 then Inl (External ''negative big.Int'')
          else let bs = ex_nat_bytes (nat k) in
               if length bs > 255 then Inl (External ''big.Int too long'')
               else Inr (of_nat (length bs) # bs))"

fun ex_decBig :: "byte list \<Rightarrow> (int \<times> byte list) option" where
  "ex_decBig [] = None"
| "ex_decBig (l # r) =
     (if length r < unat l then None
      else Some (int (ex_bytes_nat (take (unat l) r)), drop (unat l) r))"

definition ex_wire_Encode_uint64_bigInt ::
  "64 word \<Rightarrow> int option \<Rightarrow> writer \<Rightarrow> error option \<times> writer" where
  "ex_wire_Encode_uint64_bigInt d n w =
     (case ex_encBig n of
        Inl e \<Rightarrow> (Some e, w @ ex_enc64 d)
      | Inr bs \<Rightarrow> (None, w @ ex_enc64 d @ bs))"

definition ex_wire_Decode_uint64_bigInt ::
  "64 word \<Rightarrow> int option \<Rightarrow> reader \<Rightarrow> (error option \<times> 64 word \<times> int option) \<times> reader" where
  "ex_wire_Decode_uint64_bigInt d0 n0 r =
     (case ex_dec64 r of
        None \<Rightarrow> ((Some io_EOF, d0, n0), [])
      | Some (d, r1) \<Rightarrow>
          (case ex_decBig r1 of
             None \<Rightarrow> ((Some io_EOF, d, n0), [])
           | Some (n, r2) \<Rightarrow> ((None, d, Some n), r2)))"

definition ex_wire_Encode_int32 :: "32 word \<Rightarrow> writer \<Rightarrow> error option \<times> writer" where
  "ex_wire_Encode_int32 n w = (None, w @ ex_enc32 n)"

definition ex_wire_Decode_int32 :: "32 word \<Rightarrow> reader \<Rightarrow> (error option \<times> 32 word) \<times> reader" where
  "ex_wire_Decode_int32 n0 r =
     (case ex_dec32 r of None \<Rightarrow> ((Some io_EOF, n0), []) | Some (n, r1) \<Rightarrow> ((None, n), r1))"

definition ex_wire_Encode_SessionID :: "SessionID \<Rightarrow> writer \<Rightarrow> error option \<times> writer" where
  "ex_wire_Encode_SessionID sid w = (None, w @ sid)"

definition ex_wire_Decode_SessionID ::
  "SessionID \<Rightarrow> reader \<Rightarrow> (error option \<times> SessionID) \<times> reader" where
  "ex_wire_Decode_SessionID sid0 r =
     (if length r < 32 then ((Some io_EOF, sid0), []) else ((None, take 32 r), drop 32 r))"

text \<open>A string: one byte, its length, then its bytes.\<close>

definition ex_encString :: "string \<Rightarrow> error + byte list" where
  "ex_encString s =
     (if length s > 255 then Inl (External ''string too long'')
      else Inr (of_nat (length s) # map (\<lambda>c. of_nat (of_char c)) s))"

fun ex_decString :: "byte list \<Rightarrow> (string \<times> byte list) option" where
  "ex_decString [] = None"
| "ex_decString (l # r) =
     (if length r < unat l then None
      else Some (map (\<lambda>b. char_of (unat b)) (take (unat l) r), drop (unat l) r))"

definition ex_wire_Encode_SessionID_string ::
  "SessionID \<Rightarrow> string \<Rightarrow> writer \<Rightarrow> error option \<times> writer" where
  "ex_wire_Encode_SessionID_string sid s w =
     (case ex_encString s of
        Inl e \<Rightarrow> (Some e, w @ sid)
      | Inr bs \<Rightarrow> (None, w @ sid @ bs))"

definition ex_wire_Decode_SessionID_string ::
  "SessionID \<Rightarrow> string \<Rightarrow> reader \<Rightarrow> (error option \<times> SessionID \<times> string) \<times> reader" where
  "ex_wire_Decode_SessionID_string sid0 s0 r =
     (if length r < 32 then ((Some io_EOF, sid0, s0), [])
      else (case ex_decString (drop 32 r) of
              None \<Rightarrow> ((Some io_EOF, take 32 r, s0), [])
            | Some (s, r1) \<Rightarrow> ((None, take 32 r, s), r1)))"

text \<open>
  An address is one byte. The application at address \<open>a\<close> has \<open>unat a\<close> bytes of data;
  no application is at address 0. An allocation is one 64-bit balance.
\<close>

definition ex_Address_Encode :: "byte \<Rightarrow> writer \<Rightarrow> error option \<times> writer" where
  "ex_Address_Encode a w = (None, w @ [a])"

fun ex_wallet_DecodeAddress :: "reader \<Rightarrow> (byte option \<times> error option) \<times> reader" where
  "ex_wallet_DecodeAddress [] = ((None, Some io_EOF), [])"
| "ex_wallet_DecodeAddress (a # r) = ((Some a, None), r)"

definition ex_perunio_Encode ::
  "byte option \<Rightarrow> byte option \<Rightarrow> byte list option \<Rightarrow> 64 word option \<Rightarrow> writer
    \<Rightarrow> error option \<times> writer" where
  "ex_perunio_Encode pa ad dat bals w =
     (case (pa, ad, dat, bals) of
        (Some a, Some b, Some d, Some al) \<Rightarrow> (None, w @ [a] @ [b] @ d @ ex_enc64 al)
      | _ \<Rightarrow> (Some (Panic ''nil pointer dereference''), w))"

definition ex_channel_AppFromDefinition :: "byte option \<Rightarrow> nat option \<times> error option" where
  "ex_channel_AppFromDefinition ad =
     (case ad of
        None \<Rightarrow> (None, Some (External ''unknown app''))
      | Some a \<Rightarrow> if a = 0 then (None, Some (External ''unknown app'')) else (Some (unat a), None))"

definition ex_App_DecodeData :: "nat \<Rightarrow> reader \<Rightarrow> (byte list option \<times> error option) \<times> reader" where
  "ex_App_DecodeData k r =
     (if length r < k then ((None, Some io_EOF), []) else ((Some (take k r), None), drop k r))"

definition ex_perunio_Decode_Allocation ::
  "64 word \<Rightarrow> reader \<Rightarrow> (error option \<times> 64 word) \<times> reader" where
  "ex_perunio_Decode_Allocation al0 r =
     (case ex_dec64 r of None \<Rightarrow> ((Some io_EOF, al0), []) | Some (al, r1) \<Rightarrow> ((None, al), r1))"

definition ex_externals :: "(byte, byte list, 64 word, nat) externals" where
  "ex_externals =
     \<lparr>wire_Encode_uint64_bigInt = ex_wire_Encode_uint64_bigInt,
      wire_Encode_int32 = ex_wire_Encode_int32,
      wire_Encode_SessionID = ex_wire_Encode_SessionID,
      wire_Encode_SessionID_string = ex_wire_Encode_SessionID_string,
      perunio_Encode = ex_perunio_Encode,
      Address_Encode = ex_Address_Encode,
      wire_Decode_uint64_bigInt = ex_wire_Decode_uint64_bigInt,
      wire_Decode_int32 = ex_wire_Decode_int32,
      wire_Decode_SessionID = ex_wire_Decode_SessionID,
      wire_Decode_SessionID_string = ex_wire_Decode_SessionID_string,
      wallet_DecodeAddress = ex_wallet_DecodeAddress,
      channel_AppFromDefinition = ex_channel_AppFromDefinition,
      App_DecodeData = ex_App_DecodeData,
      Allocation_zero = 0,
      perunio_Decode_Allocation = ex_perunio_Decode_Allocation\<rparr>"

text \<open>The proposal of the spec's happy path: challenge duration 100, nonce 42, two participants.\<close>

definition ex_proposal :: "(byte, byte list, 64 word) ChannelProposal" where
  "ex_proposal =
     \<lparr>ChallengeDuration = 100, Nonce = Some 42, ParticipantAddr = Some 7, AppDef = Some 2,
      InitData = Some [5, 6], InitBals = Some 1000, Parts = [Some 7, Some 9]\<rparr>"

definition ex_proposal_bytes :: "byte list" where
  "ex_proposal_bytes =
     [0, 0, 0, 0, 0, 0, 0, 100,  1, 42,  7,  2,  5, 6,  0, 0, 0, 0, 0, 0, 3, 232,
      0, 0, 0, 2,  7,  9]"


section \<open>Valid fields\<close>

text \<open>
  A field is valid for the external codec when it survives it: encoding it onto any
  writer succeeds and appends some bytes, and decoding any input that starts with these
  bytes gives the field back and leaves the rest of the input.
\<close>

definition roundtrips_Address :: "('addr, 'data, 'alloc, 'app) externals \<Rightarrow> 'addr \<Rightarrow> bool" where
  "roundtrips_Address x a \<longleftrightarrow>
     (\<forall>w. \<exists>bs. Address_Encode x a w = (None, w @ bs) \<and>
        (\<forall>rest. wallet_DecodeAddress x (bs @ rest) = ((Some a, None), rest)))"

definition roundtrips_uint64_bigInt ::
  "('addr, 'data, 'alloc, 'app) externals \<Rightarrow> 64 word \<Rightarrow> int option \<Rightarrow> bool" where
  "roundtrips_uint64_bigInt x d n \<longleftrightarrow>
     (\<forall>w. \<exists>bs. wire_Encode_uint64_bigInt x d n w = (None, w @ bs) \<and>
        (\<forall>d0 n0 rest. wire_Decode_uint64_bigInt x d0 n0 (bs @ rest) = ((None, d, n), rest)))"

definition roundtrips_int32 :: "('addr, 'data, 'alloc, 'app) externals \<Rightarrow> 32 word \<Rightarrow> bool" where
  "roundtrips_int32 x n \<longleftrightarrow>
     (\<forall>w. \<exists>bs. wire_Encode_int32 x n w = (None, w @ bs) \<and>
        (\<forall>n0 rest. wire_Decode_int32 x n0 (bs @ rest) = ((None, n), rest)))"

definition roundtrips_perunio ::
  "('addr, 'data, 'alloc, 'app) externals \<Rightarrow> 'addr option \<Rightarrow> 'addr option \<Rightarrow> 'data option
    \<Rightarrow> 'alloc option \<Rightarrow> bool" where
  "roundtrips_perunio x pa ad dat bals \<longleftrightarrow>
     (\<forall>w. \<exists>b1 b2 b3 b4 app al.
        perunio_Encode x pa ad dat bals w = (None, w @ b1 @ b2 @ b3 @ b4) \<and>
        (\<forall>rest. wallet_DecodeAddress x (b1 @ rest) = ((pa, None), rest)) \<and>
        (\<forall>rest. wallet_DecodeAddress x (b2 @ rest) = ((ad, None), rest)) \<and>
        channel_AppFromDefinition x ad = (Some app, None) \<and>
        (\<forall>rest. App_DecodeData x app (b3 @ rest) = ((dat, None), rest)) \<and>
        bals = Some al \<and>
        (\<forall>rest. perunio_Decode_Allocation x (Allocation_zero x) (b4 @ rest) = ((None, al), rest)))"

definition valid_ChannelProposal ::
  "('addr, 'data, 'alloc, 'app) externals \<Rightarrow> ('addr, 'data, 'alloc) ChannelProposal \<Rightarrow> bool" where
  "valid_ChannelProposal x p \<longleftrightarrow>
     roundtrips_uint64_bigInt x (ChallengeDuration p) (Nonce p) \<and>
     roundtrips_perunio x (ParticipantAddr p) (AppDef p) (InitData p) (InitBals p) \<and>
     2 \<le> length (Parts p) \<and> int (length (Parts p)) \<le> MaxInt32 \<and>
     roundtrips_int32 x (word_of_nat (length (Parts p))) \<and>
     (\<forall>a \<in> set (Parts p). \<exists>a'. a = Some a' \<and> roundtrips_Address x a')"


definition roundtrips_SessionID ::
  "('addr, 'data, 'alloc, 'app) externals \<Rightarrow> SessionID \<Rightarrow> bool" where
  "roundtrips_SessionID x sid \<longleftrightarrow>
     (\<forall>w. \<exists>bs. wire_Encode_SessionID x sid w = (None, w @ bs) \<and>
        (\<forall>sid0 rest. wire_Decode_SessionID x sid0 (bs @ rest) = ((None, sid), rest)))"

definition roundtrips_SessionID_string ::
  "('addr, 'data, 'alloc, 'app) externals \<Rightarrow> SessionID \<Rightarrow> string \<Rightarrow> bool" where
  "roundtrips_SessionID_string x sid s \<longleftrightarrow>
     (\<forall>w. \<exists>bs. wire_Encode_SessionID_string x sid s w = (None, w @ bs) \<and>
        (\<forall>sid0 s0 rest. wire_Decode_SessionID_string x sid0 s0 (bs @ rest)
                          = ((None, sid, s), rest)))"

definition valid_ChannelProposalAcc ::
  "('addr, 'data, 'alloc, 'app) externals \<Rightarrow> 'addr ChannelProposalAcc \<Rightarrow> bool" where
  "valid_ChannelProposalAcc x acc \<longleftrightarrow>
     roundtrips_SessionID x (Acc_SessID acc) \<and>
     (\<exists>a. Acc_ParticipantAddr acc = Some a \<and> roundtrips_Address x a)"

definition valid_ChannelProposalRej ::
  "('addr, 'data, 'alloc, 'app) externals \<Rightarrow> ChannelProposalRej \<Rightarrow> bool" where
  "valid_ChannelProposalRej x rej \<longleftrightarrow>
     roundtrips_SessionID_string x (Rej_SessID rej) (Rej_Reason rej)"

section \<open>Concrete messages\<close>

definition ex_acc :: "byte ChannelProposalAcc" where
  "ex_acc = \<lparr>Acc_SessID = replicate 32 17, Acc_ParticipantAddr = Some 9\<rparr>"

definition ex_rej :: ChannelProposalRej where
  "ex_rej = \<lparr>Rej_SessID = replicate 32 17, Rej_Reason = ''no''\<rparr>"

text \<open>The example proposal with one participant, and its encoding.\<close>

definition ex_proposal_1 :: "(byte, byte list, 64 word) ChannelProposal" where
  "ex_proposal_1 = ex_proposal\<lparr>Parts := [Some 7]\<rparr>"

definition ex_proposal_1_bytes :: "byte list" where
  "ex_proposal_1_bytes =
     [0, 0, 0, 0, 0, 0, 0, 100,  1, 42,  7,  2,  5, 6,  0, 0, 0, 0, 0, 0, 3, 232,
      0, 0, 0, 1,  7]"

text \<open>The example proposal without participants.\<close>

definition ex_proposal_0 :: "(byte, byte list, 64 word) ChannelProposal" where
  "ex_proposal_0 = ex_proposal\<lparr>Parts := []\<rparr>"

text \<open>The bytes of the example proposal up to its allocation: what is written before the
  participant count.\<close>

definition ex_proposal_head :: "byte list" where
  "ex_proposal_head =
     [0, 0, 0, 0, 0, 0, 0, 100,  1, 42,  7,  2,  5, 6,  0, 0, 0, 0, 0, 0, 3, 232]"

text \<open>The example proposal with \<open>2^31\<close> participants.\<close>

definition ex_proposal_many :: "(byte, byte list, 64 word) ChannelProposal" where
  "ex_proposal_many = ex_proposal\<lparr>Parts := replicate 2147483648 (Some 7)\<rparr>"

text \<open>The example proposal whose application address 0 names no application, as bytes.\<close>

definition ex_unknown_app_bytes :: "byte list" where
  "ex_unknown_app_bytes =
     [0, 0, 0, 0, 0, 0, 0, 100,  1, 42,  7,  0,  5, 6,  0, 0, 0, 0, 0, 0, 3, 232,
      0, 0, 0, 2,  7,  9]"

text \<open>
  The instance with an address codec that refuses the address 255, and a proposal whose
  second participant is that address.
\<close>

definition ex_externals_255 :: "(byte, byte list, 64 word, nat) externals" where
  "ex_externals_255 =
     ex_externals\<lparr>Address_Encode :=
       (\<lambda>a w. if a = 255 then (Some (External ''invalid address''), w)
              else ex_Address_Encode a w)\<rparr>"

definition ex_proposal_255 :: "(byte, byte list, 64 word) ChannelProposal" where
  "ex_proposal_255 = ex_proposal\<lparr>Parts := [Some 7, Some 255]\<rparr>"

section \<open>The global backend of package channel\<close>

text \<open>
  Modelled from the spec: the package-level backend registry of package
  \<^verbatim>\<open>channel\<close> (\<^verbatim>\<open>SetBackend\<close>, \<^verbatim>\<open>ChannelID\<close>, \<^verbatim>\<open>Sign\<close>, \<^verbatim>\<open>Verify\<close> and the
  \<^verbatim>\<open>Backend\<close> interface), whose file is not among the sources; only its test
  \<^verbatim>\<open>channel/backend_test.go\<close> is. The spec: \<^verbatim>\<open>SetBackend(b)\<close> installs \<open>b\<close> as
  the sole active backend, replacing any previous one; the package-level functions are
  pure delegations to the installed backend; calling one before a backend is installed
  fails fast.

  A backend's methods may have effects (the mock of the test records that it was called),
  so each method takes and returns the state \<open>'w\<close> a method can change. The registry is
  the variable holding the installed backend, \<open>None\<close> before the first
  \<^verbatim>\<open>SetBackend\<close>.
\<close>

type_synonym ID = "byte list"
type_synonym Sig = "byte list"

record ('params, 'state, 'account, 'address, 'w) Backend =
  Backend_ChannelID :: "'params \<Rightarrow> 'w \<Rightarrow> ID \<times> 'w"
  Backend_Sign :: "'account \<Rightarrow> 'params \<Rightarrow> 'state \<Rightarrow> 'w \<Rightarrow> (Sig \<times> error option) \<times> 'w"
  Backend_Verify ::
    "'address \<Rightarrow> 'params \<Rightarrow> 'state \<Rightarrow> Sig \<Rightarrow> 'w \<Rightarrow> (bool \<times> error option) \<times> 'w"

definition SetBackend ::
  "('params, 'state, 'account, 'address, 'w) Backend
    \<Rightarrow> ('params, 'state, 'account, 'address, 'w) Backend option
    \<Rightarrow> ('params, 'state, 'account, 'address, 'w) Backend option" where
  "SetBackend b registry = Some b"

definition ChannelID ::
  "('params, 'state, 'account, 'address, 'w) Backend option \<Rightarrow> 'params \<Rightarrow> 'w
    \<Rightarrow> error + (ID \<times> 'w)" where
  "ChannelID registry p w =
     (case registry of
        None \<Rightarrow> Inl (Panic ''nil pointer dereference'')
      | Some b \<Rightarrow> Inr (Backend_ChannelID b p w))"

definition Sign ::
  "('params, 'state, 'account, 'address, 'w) Backend option \<Rightarrow> 'account \<Rightarrow> 'params \<Rightarrow> 'state
    \<Rightarrow> 'w \<Rightarrow> error + ((Sig \<times> error option) \<times> 'w)" where
  "Sign registry a p s w =
     (case registry of
        None \<Rightarrow> Inl (Panic ''nil pointer dereference'')
      | Some b \<Rightarrow> Inr (Backend_Sign b a p s w))"

definition Verify ::
  "('params, 'state, 'account, 'address, 'w) Backend option \<Rightarrow> 'address \<Rightarrow> 'params \<Rightarrow> 'state
    \<Rightarrow> Sig \<Rightarrow> 'w \<Rightarrow> error + ((bool \<times> error option) \<times> 'w)" where
  "Verify registry addr p s sig w =
     (case registry of
        None \<Rightarrow> Inl (Panic ''nil pointer dereference'')
      | Some b \<Rightarrow> Inr (Backend_Verify b addr p s sig w))"

text \<open>
  The \<^verbatim>\<open>mockBackend\<close> of \<^verbatim>\<open>channel/backend_test.go\<close>. Its state is the list of the
  calls made to it, each with its arguments; \<^verbatim>\<open>AssertWrapped\<close> is the method recording
  the call. \<^verbatim>\<open>ChannelID\<close> returns \<^verbatim>\<open>Zero\<close>, \<^verbatim>\<open>Sign\<close> returns \<^verbatim>\<open>nil, nil\<close>,
  \<^verbatim>\<open>Verify\<close> returns \<^verbatim>\<open>false, nil\<close>.
\<close>

datatype ('params, 'state, 'account, 'address) mock_call =
    Called_ChannelID 'params
  | Called_Sign 'account 'params 'state
  | Called_Verify 'address 'params 'state Sig

definition Zero :: ID where
  "Zero = replicate 32 0"

definition mockBackend ::
  "('params, 'state, 'account, 'address,
    ('params, 'state, 'account, 'address) mock_call list) Backend" where
  "mockBackend =
     \<lparr>Backend_ChannelID = (\<lambda>p calls. (Zero, calls @ [Called_ChannelID p])),
      Backend_Sign = (\<lambda>a p s calls. (([], None), calls @ [Called_Sign a p s])),
      Backend_Verify = (\<lambda>addr p s sig calls. ((False, None), calls @ [Called_Verify addr p s sig]))\<rparr>"

section \<open>Proofs\<close>

declare decodeParts.simps [simp del]
declare ex_nat_bytes.simps [simp del]

subsection \<open>The participant loops\<close>

lemma decodeParts_unfold:
  "i < length parts \<Longrightarrow> wallet_DecodeAddress x r = ((a, None), r') \<Longrightarrow>
   decodeParts x parts i r = decodeParts x (parts[i := a]) (Suc i) r'"
  by (subst decodeParts.simps) simp

lemma decodeParts_done: "length parts \<le> i \<Longrightarrow> decodeParts x parts i r = (None, parts, r)"
  by (subst decodeParts.simps) simp

lemma decodeParts_fail:
  "i < length parts \<Longrightarrow> wallet_DecodeAddress x r = ((a, Some e), r') \<Longrightarrow>
   decodeParts x parts i r = (Some e, parts[i := a], r')"
  by (subst decodeParts.simps) simp

lemma Parts_roundtrip:
  assumes "\<forall>a \<in> set ps. \<exists>a'. a = Some a' \<and> roundtrips_Address x a'"
  shows "\<exists>bs. encodeParts x ps i w = (None, w @ bs) \<and>
           (\<forall>parts j rest. j + length ps = length parts \<longrightarrow>
              decodeParts x parts j (bs @ rest) = (None, take j parts @ ps, rest))"
  using assms
proof (induction ps arbitrary: i w)
  case Nil
  show ?case by (simp add: decodeParts_done)
next
  case (Cons a ps)
  from Cons.prems obtain a' where a: "a = Some a'" and rt: "roundtrips_Address x a'"
    by auto
  from rt obtain b1 where
    e1: "Address_Encode x a' w = (None, w @ b1)" and
    d1: "\<And>rest. wallet_DecodeAddress x (b1 @ rest) = ((Some a', None), rest)"
    unfolding roundtrips_Address_def by blast
  from Cons.prems have "\<forall>a \<in> set ps. \<exists>a'. a = Some a' \<and> roundtrips_Address x a'"
    by simp
  from Cons.IH [OF this, of "Suc i" "w @ b1"] obtain b2 where
    e2: "encodeParts x ps (Suc i) (w @ b1) = (None, (w @ b1) @ b2)" and
    d2: "\<And>parts j rest. j + length ps = length parts \<Longrightarrow>
           decodeParts x parts j (b2 @ rest) = (None, take j parts @ ps, rest)"
    by blast
  have enc: "encodeParts x (a # ps) i w = (None, w @ (b1 @ b2))"
    by (simp add: a e1 e2)
  have dec: "decodeParts x parts j ((b1 @ b2) @ rest) = (None, take j parts @ a # ps, rest)"
    if len: "j + length (a # ps) = length parts" for parts j rest
  proof -
    from len have j: "j < length parts" by simp
    have "decodeParts x parts j ((b1 @ b2) @ rest)
            = decodeParts x (parts[j := Some a']) (Suc j) (b2 @ rest)"
      using decodeParts_unfold [OF j d1 [of "b2 @ rest"]] by simp
    also have "\<dots> = (None, take (Suc j) (parts[j := Some a']) @ ps, rest)"
      using len by (intro d2) simp
    also have "take (Suc j) (parts[j := Some a']) = take j parts @ [Some a']"
      using j by (simp add: take_Suc_conv_app_nth)
    finally show ?thesis by (simp add: a)
  qed
  from enc dec show ?case by blast
qed

lemma ChannelProposal_roundtrip:
  assumes v: "valid_ChannelProposal x p"
  shows "\<exists>bs. ChannelProposal_Encode x p w = (None, w @ bs) \<and>
           (\<forall>c rest. ChannelProposal_Decode x c (bs @ rest) = (None, p, rest))"
proof -
  let ?n = "word_of_nat (length (Parts p)) :: 32 word"
  from v have r1: "roundtrips_uint64_bigInt x (ChallengeDuration p) (Nonce p)"
    and r2: "roundtrips_perunio x (ParticipantAddr p) (AppDef p) (InitData p) (InitBals p)"
    and len2: "2 \<le> length (Parts p)" and lenmax: "int (length (Parts p)) \<le> MaxInt32"
    and r6: "roundtrips_int32 x ?n"
    and r7: "\<forall>a \<in> set (Parts p). \<exists>a'. a = Some a' \<and> roundtrips_Address x a'"
    unfolding valid_ChannelProposal_def by simp_all
  from r1 [unfolded roundtrips_uint64_bigInt_def, THEN spec, of w] obtain s1 where
    e1: "wire_Encode_uint64_bigInt x (ChallengeDuration p) (Nonce p) w = (None, w @ s1)" and
    d1: "\<forall>d0 n0 rest. wire_Decode_uint64_bigInt x d0 n0 (s1 @ rest)
                         = ((None, ChallengeDuration p, Nonce p), rest)"
    by (elim exE conjE)
  from r2 [unfolded roundtrips_perunio_def, THEN spec, of "w @ s1"]
  obtain b1 b2 b3 b4 app al where
    e2: "perunio_Encode x (ParticipantAddr p) (AppDef p) (InitData p) (InitBals p) (w @ s1)
           = (None, (w @ s1) @ b1 @ b2 @ b3 @ b4)" and
    d2: "\<forall>rest. wallet_DecodeAddress x (b1 @ rest) = ((ParticipantAddr p, None), rest)" and
    d3: "\<forall>rest. wallet_DecodeAddress x (b2 @ rest) = ((AppDef p, None), rest)" and
    app: "channel_AppFromDefinition x (AppDef p) = (Some app, None)" and
    d4: "\<forall>rest. App_DecodeData x app (b3 @ rest) = ((InitData p, None), rest)" and
    bals: "InitBals p = Some al" and
    d5: "\<forall>rest. perunio_Decode_Allocation x (Allocation_zero x) (b4 @ rest) = ((None, al), rest)"
    by (elim exE conjE)
  from r6 [unfolded roundtrips_int32_def, THEN spec, of "(w @ s1) @ b1 @ b2 @ b3 @ b4"]
  obtain s6 where
    e6: "wire_Encode_int32 x ?n ((w @ s1) @ b1 @ b2 @ b3 @ b4)
           = (None, ((w @ s1) @ b1 @ b2 @ b3 @ b4) @ s6)" and
    d6: "\<forall>n0 rest. wire_Decode_int32 x n0 (s6 @ rest) = ((None, ?n), rest)"
    by (elim exE conjE)
  from Parts_roundtrip [OF r7, of 0 "((w @ s1) @ b1 @ b2 @ b3 @ b4) @ s6"] obtain s7 where
    e7: "encodeParts x (Parts p) 0 (((w @ s1) @ b1 @ b2 @ b3 @ b4) @ s6)
           = (None, (((w @ s1) @ b1 @ b2 @ b3 @ b4) @ s6) @ s7)" and
    d7: "\<forall>parts j rest. j + length (Parts p) = length parts \<longrightarrow>
           decodeParts x parts j (s7 @ rest) = (None, take j parts @ Parts p, rest)"
    by (elim exE conjE)
  have sint_n: "sint ?n = int (length (Parts p))"
    using lenmax by (simp add: MaxInt32_def signed_of_nat signed_take_bit_int_eq_self)
  have enc: "ChannelProposal_Encode x p w = (None, w @ (s1 @ b1 @ b2 @ b3 @ b4 @ s6 @ s7))"
    using lenmax e6 e7 by (simp add: ChannelProposal_Encode_def e1 e2)
  have dec: "ChannelProposal_Decode x c ((s1 @ b1 @ b2 @ b3 @ b4 @ s6 @ s7) @ rest) = (None, p, rest)"
    for c rest
  proof -
    have nlt: "\<not> ?n <s 2"
      using len2 by (simp add: word_sless_alt sint_n)
    have parts: "decodeParts x (replicate (length (Parts p)) None) 0 (s7 @ rest)
                   = (None, Parts p, rest)"
      using d7 [rule_format, of 0 "replicate (length (Parts p)) None" rest] by simp
    show ?thesis
      by (simp add: ChannelProposal_Decode_def Let_def d1 d2 d3 app d4 d5 d6 bals nlt sint_n parts)
  qed
  from enc dec show ?thesis by blast
qed


lemma ChannelProposalAcc_roundtrip:
  assumes v: "valid_ChannelProposalAcc x acc"
  shows "\<exists>bs. ChannelProposalAcc_Encode x acc w = (None, w @ bs) \<and>
           (\<forall>c rest. ChannelProposalAcc_Decode x c (bs @ rest) = (None, acc, rest))"
proof -
  from v obtain a where r1: "roundtrips_SessionID x (Acc_SessID acc)"
    and a: "Acc_ParticipantAddr acc = Some a" and r2: "roundtrips_Address x a"
    unfolding valid_ChannelProposalAcc_def by (elim exE conjE)
  from r1 [unfolded roundtrips_SessionID_def, THEN spec, of w] obtain s1 where
    e1: "wire_Encode_SessionID x (Acc_SessID acc) w = (None, w @ s1)" and
    d1: "\<forall>sid0 rest. wire_Decode_SessionID x sid0 (s1 @ rest) = ((None, Acc_SessID acc), rest)"
    by (elim exE conjE)
  from r2 [unfolded roundtrips_Address_def, THEN spec, of "w @ s1"] obtain s2 where
    e2: "Address_Encode x a (w @ s1) = (None, (w @ s1) @ s2)" and
    d2: "\<forall>rest. wallet_DecodeAddress x (s2 @ rest) = ((Some a, None), rest)"
    by (elim exE conjE)
  have enc: "ChannelProposalAcc_Encode x acc w = (None, w @ (s1 @ s2))"
    by (simp add: ChannelProposalAcc_Encode_def e1 a e2)
  have dec: "ChannelProposalAcc_Decode x c ((s1 @ s2) @ rest) = (None, acc, rest)" for c rest
    by (simp add: ChannelProposalAcc_Decode_def Let_def d1 d2 a [symmetric])
  from enc dec show ?thesis by blast
qed

lemma ChannelProposalRej_roundtrip:
  assumes v: "valid_ChannelProposalRej x rej"
  shows "\<exists>bs. ChannelProposalRej_Encode x rej w = (None, w @ bs) \<and>
           (\<forall>c rest. ChannelProposalRej_Decode x c (bs @ rest) = (None, rej, rest))"
proof -
  from v [unfolded valid_ChannelProposalRej_def roundtrips_SessionID_string_def, THEN spec, of w]
  obtain s1 where
    e1: "wire_Encode_SessionID_string x (Rej_SessID rej) (Rej_Reason rej) w = (None, w @ s1)" and
    d1: "\<forall>sid0 s0 rest. wire_Decode_SessionID_string x sid0 s0 (s1 @ rest)
                          = ((None, Rej_SessID rej, Rej_Reason rej), rest)"
    by (elim exE conjE)
  have enc: "ChannelProposalRej_Encode x rej w = (None, w @ s1)"
    by (simp add: ChannelProposalRej_Encode_def e1)
  have dec: "ChannelProposalRej_Decode x c (s1 @ rest) = (None, rej, rest)" for c rest
    by (simp add: ChannelProposalRej_Decode_def d1)
  from enc dec show ?thesis by blast
qed

subsection \<open>The example instance\<close>

lemma ex_nat_bytes_42: "ex_nat_bytes 42 = [42]"
  by (simp add: ex_nat_bytes.simps [of 42] ex_nat_bytes.simps [of 0])

lemma ex_Address_roundtrips: "roundtrips_Address ex_externals a"
  by (simp add: roundtrips_Address_def ex_externals_def ex_Address_Encode_def)

lemma ex_proposal_valid: "valid_ChannelProposal ex_externals ex_proposal"
  unfolding valid_ChannelProposal_def
proof (intro conjI)
  show "roundtrips_uint64_bigInt ex_externals (ChallengeDuration ex_proposal) (Nonce ex_proposal)"
    by (simp add: roundtrips_uint64_bigInt_def ex_externals_def ex_proposal_def
        ex_wire_Encode_uint64_bigInt_def ex_wire_Decode_uint64_bigInt_def ex_encBig_def
        ex_nat_bytes_42 ex_enc64_def ex_bytes_nat_def)
  show "roundtrips_perunio ex_externals (ParticipantAddr ex_proposal) (AppDef ex_proposal)
          (InitData ex_proposal) (InitBals ex_proposal)"
    unfolding roundtrips_perunio_def
    apply (intro allI)
    apply (rule exI [of _ "[7]"], rule exI [of _ "[2]"], rule exI [of _ "[5, 6]"])
    apply (rule exI [of _ "ex_enc64 1000"], rule exI [of _ 2], rule exI [of _ 1000])
    apply (simp add: ex_externals_def ex_proposal_def ex_perunio_Encode_def
        ex_channel_AppFromDefinition_def ex_App_DecodeData_def
        ex_perunio_Decode_Allocation_def ex_enc64_def)
    done
  show "2 \<le> length (Parts ex_proposal)"
    by (simp add: ex_proposal_def)
  show "int (length (Parts ex_proposal)) \<le> MaxInt32"
    by (simp add: ex_proposal_def MaxInt32_def)
  show "roundtrips_int32 ex_externals (word_of_nat (length (Parts ex_proposal)))"
    by (simp add: roundtrips_int32_def ex_externals_def ex_proposal_def ex_wire_Encode_int32_def
        ex_wire_Decode_int32_def ex_enc32_def)
  show "\<forall>a \<in> set (Parts ex_proposal). \<exists>a'. a = Some a' \<and> roundtrips_Address ex_externals a'"
    by (simp add: ex_proposal_def ex_Address_roundtrips)
qed

lemma ex_acc_valid: "valid_ChannelProposalAcc ex_externals ex_acc"
  unfolding valid_ChannelProposalAcc_def
proof (intro conjI)
  show "roundtrips_SessionID ex_externals (Acc_SessID ex_acc)"
    by (simp add: roundtrips_SessionID_def ex_acc_def ex_externals_def
        ex_wire_Encode_SessionID_def ex_wire_Decode_SessionID_def)
  show "\<exists>a. Acc_ParticipantAddr ex_acc = Some a \<and> roundtrips_Address ex_externals a"
    by (simp add: ex_acc_def ex_Address_roundtrips)
qed

lemma ex_rej_valid: "valid_ChannelProposalRej ex_externals ex_rej"
  by (simp add: valid_ChannelProposalRej_def roundtrips_SessionID_string_def
      ex_rej_def ex_externals_def ex_wire_Encode_SessionID_string_def
      ex_wire_Decode_SessionID_string_def ex_encString_def char_of_def bit_0)

lemma ex_proposal_Encode:
  "ChannelProposal_Encode ex_externals ex_proposal [] = (None, ex_proposal_bytes)"
  by (simp add: ChannelProposal_Encode_def ex_externals_def ex_proposal_def ex_proposal_bytes_def
        ex_wire_Encode_uint64_bigInt_def ex_encBig_def ex_nat_bytes_42 ex_enc64_def
        ex_perunio_Encode_def MaxInt32_def ex_wire_Encode_int32_def ex_enc32_def
        ex_Address_Encode_def)

lemma ex_acc_Encode:
  "ChannelProposalAcc_Encode ex_externals ex_acc [] = (None, replicate 32 17 @ [9])"
  by (simp add: ChannelProposalAcc_Encode_def ex_externals_def ex_acc_def
        ex_wire_Encode_SessionID_def ex_Address_Encode_def)

lemma ex_rej_Encode:
  "ChannelProposalRej_Encode ex_externals ex_rej [] = (None, replicate 32 17 @ [2, 110, 111])"
  by (simp add: ChannelProposalRej_Encode_def ex_externals_def ex_rej_def
        ex_wire_Encode_SessionID_string_def ex_encString_def)

subsection \<open>Round trip\<close>

text \<open>
  C1. A valid message survives its codec: \<^verbatim>\<open>Encode\<close> succeeds and appends some bytes
  to the writer, and \<^verbatim>\<open>Decode\<close>, on any receiver and any input that starts with these
  bytes, succeeds, leaves the rest of the input and makes the receiver equal to the
  message. This holds for \<^verbatim>\<open>ChannelProposal\<close> (with 2 to \<open>2^31 - 1\<close> participants),
  \<^verbatim>\<open>ChannelProposalAcc\<close> and \<^verbatim>\<open>ChannelProposalRej\<close>.
\<close>

theorem Encode_Decode_roundtrip:
  "(valid_ChannelProposal x p \<longrightarrow>
      (\<exists>bs. ChannelProposal_Encode x p w1 = (None, w1 @ bs) \<and>
         (\<forall>c rest. ChannelProposal_Decode x c (bs @ rest) = (None, p, rest)))) \<and>
   (valid_ChannelProposalAcc x acc \<longrightarrow>
      (\<exists>bs. ChannelProposalAcc_Encode x acc w2 = (None, w2 @ bs) \<and>
         (\<forall>c rest. ChannelProposalAcc_Decode x c (bs @ rest) = (None, acc, rest)))) \<and>
   (valid_ChannelProposalRej x rej \<longrightarrow>
      (\<exists>bs. ChannelProposalRej_Encode x rej w3 = (None, w3 @ bs) \<and>
         (\<forall>c rest. ChannelProposalRej_Decode x c (bs @ rest) = (None, rej, rest))))"
  using ChannelProposal_roundtrip [of x p w1] ChannelProposalAcc_roundtrip [of x acc w2]
    ChannelProposalRej_roundtrip [of x rej w3]
  by blast

theorem Encode_Decode_roundtrip_witness:
  "ChannelProposal_Encode ex_externals ex_proposal [] = (None, ex_proposal_bytes) \<and>
   ChannelProposal_Decode ex_externals ChannelProposal_zero ex_proposal_bytes
     = (None, ex_proposal, []) \<and>
   ChannelProposalAcc_Encode ex_externals ex_acc [] = (None, replicate 32 17 @ [9]) \<and>
   ChannelProposalAcc_Decode ex_externals ChannelProposalAcc_zero (replicate 32 17 @ [9])
     = (None, ex_acc, []) \<and>
   ChannelProposalRej_Encode ex_externals ex_rej [] = (None, replicate 32 17 @ [2, 110, 111]) \<and>
   ChannelProposalRej_Decode ex_externals ChannelProposalRej_zero
     (replicate 32 17 @ [2, 110, 111]) = (None, ex_rej, [])"
proof -
  note rt = Encode_Decode_roundtrip [of ex_externals ex_proposal "[]" ex_acc "[]" ex_rej "[]"]
  from rt ex_proposal_valid obtain b1 where
    e1: "ChannelProposal_Encode ex_externals ex_proposal [] = (None, [] @ b1)" and
    d1: "\<forall>c rest. ChannelProposal_Decode ex_externals c (b1 @ rest) = (None, ex_proposal, rest)"
    by blast
  from rt ex_acc_valid obtain b2 where
    e2: "ChannelProposalAcc_Encode ex_externals ex_acc [] = (None, [] @ b2)" and
    d2: "\<forall>c rest. ChannelProposalAcc_Decode ex_externals c (b2 @ rest) = (None, ex_acc, rest)"
    by blast
  from rt ex_rej_valid obtain b3 where
    e3: "ChannelProposalRej_Encode ex_externals ex_rej [] = (None, [] @ b3)" and
    d3: "\<forall>c rest. ChannelProposalRej_Decode ex_externals c (b3 @ rest) = (None, ex_rej, rest)"
    by blast
  from e1 have b1: "b1 = ex_proposal_bytes" by (simp add: ex_proposal_Encode)
  from e2 have b2: "b2 = replicate 32 17 @ [9]" by (simp add: ex_acc_Encode)
  from e3 have b3: "b3 = replicate 32 17 @ [2, 110, 111]" by (simp add: ex_rej_Encode)
  from d1 [rule_format, of ChannelProposal_zero "[]"]
    d2 [rule_format, of ChannelProposalAcc_zero "[]"]
    d3 [rule_format, of ChannelProposalRej_zero "[]"]
  show ?thesis
    unfolding b1 b2 b3 by (simp add: ex_proposal_Encode ex_acc_Encode ex_rej_Encode)
qed

subsection \<open>Evaluating the example instance\<close>

lemma ex_Decode_head:
  "wire_Decode_uint64_bigInt ex_externals d0 n0
     (0 # 0 # 0 # 0 # 0 # 0 # 0 # 100 # 1 # 42 # rest) = ((None, 100, Some 42), rest)"
  by (simp add: ex_externals_def ex_wire_Decode_uint64_bigInt_def ex_bytes_nat_def)

lemma ex_DecodeAddress: "wallet_DecodeAddress ex_externals (a # rest) = ((Some a, None), rest)"
  by (simp add: ex_externals_def)

lemma ex_AppFromDefinition_2: "channel_AppFromDefinition ex_externals (Some 2) = (Some 2, None)"
  by (simp add: ex_externals_def ex_channel_AppFromDefinition_def)

lemma ex_AppFromDefinition_0:
  "channel_AppFromDefinition ex_externals (Some 0) = (None, Some (External ''unknown app''))"
  by (simp add: ex_externals_def ex_channel_AppFromDefinition_def)

lemma ex_DecodeData_2:
  "App_DecodeData ex_externals 2 (a # b # rest) = ((Some [a, b], None), rest)"
  by (simp add: ex_externals_def ex_App_DecodeData_def)

lemma ex_Decode_Allocation:
  "perunio_Decode_Allocation ex_externals (Allocation_zero ex_externals)
     (0 # 0 # 0 # 0 # 0 # 0 # 3 # 232 # rest) = ((None, 1000), rest)"
  by (simp add: ex_externals_def ex_perunio_Decode_Allocation_def)

lemma ex_Decode_int32:
  "wire_Decode_int32 ex_externals n0 (0 # 0 # 0 # b # rest) = ((None, ucast b), rest)"
  by (simp add: ex_externals_def ex_wire_Decode_int32_def)

lemma ex_Encode_head:
  "wire_Encode_uint64_bigInt ex_externals 100 (Some 42) w
     = (None, w @ [0, 0, 0, 0, 0, 0, 0, 100, 1, 42])"
  by (simp add: ex_externals_def ex_wire_Encode_uint64_bigInt_def ex_encBig_def ex_nat_bytes_42
      ex_enc64_def)

lemma ex_perunio_Encode_fields:
  "perunio_Encode ex_externals (Some 7) (Some 2) (Some [5, 6]) (Some 1000) w
     = (None, w @ [7, 2, 5, 6, 0, 0, 0, 0, 0, 0, 3, 232])"
  by (simp add: ex_externals_def ex_perunio_Encode_def ex_enc64_def)

lemma ex_Encode_int32_1: "wire_Encode_int32 ex_externals 1 w = (None, w @ [0, 0, 0, 1])"
  by (simp add: ex_externals_def ex_wire_Encode_int32_def ex_enc32_def)

lemma ex_Encode_int32_0: "wire_Encode_int32 ex_externals 0 w = (None, w @ [0, 0, 0, 0])"
  by (simp add: ex_externals_def ex_wire_Encode_int32_def ex_enc32_def)

lemma ex_Address_Encode: "Address_Encode ex_externals a w = (None, w @ [a])"
  by (simp add: ex_externals_def ex_Address_Encode_def)

subsection \<open>Minimum number of participants\<close>

text \<open>
  C2. When the fields before the participant count decode and the count read from the
  buffer is less than 2 (as a signed 32-bit integer), \<^verbatim>\<open>ChannelProposal.Decode\<close> fails
  with the error \<^verbatim>\<open>expected at least 2 participants, got %d\<close> whose argument is the
  count read; the reader stands right after the count, so no participant address was
  read, and \<^verbatim>\<open>c.Parts\<close> is what it was before the call.
\<close>

theorem Decode_fewer_than_2_participants:
  assumes "wire_Decode_uint64_bigInt x (ChallengeDuration c) (Nonce c) r = ((None, d, n), r1)"
    and "wallet_DecodeAddress x r1 = ((pa, None), r2)"
    and "wallet_DecodeAddress x r2 = ((ad, None), r3)"
    and "channel_AppFromDefinition x ad = (Some app, None)"
    and "App_DecodeData x app r3 = ((dat, None), r4)"
    and "perunio_Decode_Allocation x (Allocation_zero x) r4 = ((None, bals), r5)"
    and "wire_Decode_int32 x 0 r5 = ((None, numParts), r6)"
    and "sint numParts < 2"
  shows "\<exists>c'. ChannelProposal_Decode x c r
           = (Some (Errorf ''expected at least 2 participants, got %d'' [sint numParts]), c', r6) \<and>
         c' = c\<lparr>ChallengeDuration := d, Nonce := n, ParticipantAddr := pa, AppDef := ad,
                 InitData := dat, InitBals := Some bals\<rparr> \<and>
         Parts c' = Parts c"
  using assms by (simp add: ChannelProposal_Decode_def Let_def word_sless_alt)

theorem Decode_fewer_than_2_participants_witness:
  "\<exists>c'. ChannelProposal_Decode ex_externals ChannelProposal_zero ex_proposal_1_bytes
      = (Some (Errorf ''expected at least 2 participants, got %d'' [1]), c', [7]) \<and>
    c' = ex_proposal\<lparr>Parts := []\<rparr> \<and> Parts c' = []"
proof -
  have z: "ChallengeDuration (ChannelProposal_zero :: (byte, byte list, 64 word) ChannelProposal) = 0"
    "Nonce (ChannelProposal_zero :: (byte, byte list, 64 word) ChannelProposal) = None"
    "Parts (ChannelProposal_zero :: (byte, byte list, 64 word) ChannelProposal) = []"
    by (simp_all add: ChannelProposal_zero_def)
  have n: "sint (ucast (1 :: byte) :: 32 word) < 2" by simp
  from Decode_fewer_than_2_participants [of ex_externals ChannelProposal_zero,
      OF ex_Decode_head ex_DecodeAddress ex_DecodeAddress ex_AppFromDefinition_2
         ex_DecodeData_2 ex_Decode_Allocation ex_Decode_int32 n]
  show ?thesis by (simp add: ex_proposal_1_bytes_def z ChannelProposal_zero_def ex_proposal_def)
qed

subsection \<open>More than \<open>2^31 - 1\<close> participants\<close>

text \<open>
  C3, as stated, fails: \<^verbatim>\<open>Encode\<close> checks the number of participants after it has
  written the challenge duration, the nonce, the two addresses, the data and the
  allocation. With \<open>2^31\<close> participants the example instance returns the error and the
  writer holds 22 bytes.
\<close>

theorem Encode_too_many_writes_first:
  "int (length (Parts ex_proposal_many)) > 2 ^ 31 - 1 \<and>
   ChannelProposal_Encode ex_externals ex_proposal_many []
     = (Some (Errorf ''expected maximum number of participants %d, got %d''
                [2147483647, 2147483648]), ex_proposal_head) \<and>
   ex_proposal_head \<noteq> []"
  by (simp add: ChannelProposal_Encode_def ex_proposal_many_def ex_proposal_def
      ex_Encode_head ex_perunio_Encode_fields MaxInt32_def ex_proposal_head_def)

text \<open>
  C3, amended. When the fields before the participant count encode without error and
  \<^verbatim>\<open>c.Parts\<close> has more than \<open>2^31 - 1\<close> elements, \<^verbatim>\<open>Encode\<close> fails with the error
  \<^verbatim>\<open>expected maximum number of participants %d, got %d\<close> whose arguments are
  \<open>2^31 - 1\<close> and the number of participants; the writer is as the preceding fields left
  it: neither the count nor a participant address is written.
\<close>

theorem Encode_too_many_participants:
  assumes "wire_Encode_uint64_bigInt x (ChallengeDuration c) (Nonce c) w = (None, w1)"
    and "perunio_Encode x (ParticipantAddr c) (AppDef c) (InitData c) (InitBals c) w1 = (None, w2)"
    and "int (length (Parts c)) > 2 ^ 31 - 1"
  shows "ChannelProposal_Encode x c w
           = (Some (Errorf ''expected maximum number of participants %d, got %d''
                      [2 ^ 31 - 1, int (length (Parts c))]), w2)"
  using assms by (simp add: ChannelProposal_Encode_def MaxInt32_def)

theorem Encode_too_many_participants_witness:
  "ChannelProposal_Encode ex_externals ex_proposal_many []
     = (Some (Errorf ''expected maximum number of participants %d, got %d''
                [2 ^ 31 - 1, 2147483648]), ex_proposal_head)"
proof -
  have f: "ChallengeDuration ex_proposal_many = 100" "Nonce ex_proposal_many = Some 42"
    "ParticipantAddr ex_proposal_many = Some 7" "AppDef ex_proposal_many = Some 2"
    "InitData ex_proposal_many = Some [5, 6]" "InitBals ex_proposal_many = Some 1000"
    "length (Parts ex_proposal_many) = 2147483648"
    by (simp_all add: ex_proposal_many_def ex_proposal_def)
  have e1: "wire_Encode_uint64_bigInt ex_externals (ChallengeDuration ex_proposal_many)
              (Nonce ex_proposal_many) [] = (None, [0, 0, 0, 0, 0, 0, 0, 100, 1, 42])"
    by (simp add: f ex_Encode_head)
  have e2: "perunio_Encode ex_externals (ParticipantAddr ex_proposal_many)
              (AppDef ex_proposal_many) (InitData ex_proposal_many) (InitBals ex_proposal_many)
              [0, 0, 0, 0, 0, 0, 0, 100, 1, 42] = (None, ex_proposal_head)"
    by (simp add: f ex_perunio_Encode_fields ex_proposal_head_def)
  have n: "int (length (Parts ex_proposal_many)) > 2 ^ 31 - 1"
    by (simp add: f)
  from Encode_too_many_participants [OF e1 e2 n] show ?thesis
    by (simp add: f)
qed

subsection \<open>Unknown application\<close>

text \<open>
  C5. When the fields up to \<^verbatim>\<open>AppDef\<close> decode and \<^verbatim>\<open>channel.AppFromDefinition\<close>
  returns an error for the decoded address, \<^verbatim>\<open>ChannelProposal.Decode\<close> returns that
  error; the reader stands right after \<^verbatim>\<open>AppDef\<close>, so nothing after it was read, and
  of the receiver only \<^verbatim>\<open>ChallengeDuration\<close>, \<^verbatim>\<open>Nonce\<close>, \<^verbatim>\<open>ParticipantAddr\<close> and
  \<^verbatim>\<open>AppDef\<close> are assigned.
\<close>

theorem Decode_unknown_app:
  assumes "wire_Decode_uint64_bigInt x (ChallengeDuration c) (Nonce c) r = ((None, d, n), r1)"
    and "wallet_DecodeAddress x r1 = ((pa, None), r2)"
    and "wallet_DecodeAddress x r2 = ((ad, None), r3)"
    and "channel_AppFromDefinition x ad = (app, Some err)"
  shows "ChannelProposal_Decode x c r
           = (Some err, c\<lparr>ChallengeDuration := d, Nonce := n, ParticipantAddr := pa,
                            AppDef := ad\<rparr>, r3)"
  using assms by (simp add: ChannelProposal_Decode_def Let_def split: option.split)

theorem Decode_unknown_app_witness:
  "ChannelProposal_Decode ex_externals ChannelProposal_zero ex_unknown_app_bytes
     = (Some (External ''unknown app''),
        \<lparr>ChallengeDuration = 100, Nonce = Some 42, ParticipantAddr = Some 7, AppDef = Some 0,
         InitData = None, InitBals = None, Parts = []\<rparr>,
        [5, 6, 0, 0, 0, 0, 0, 0, 3, 232, 0, 0, 0, 2, 7, 9])"
  using Decode_unknown_app [of ex_externals ChannelProposal_zero, OF ex_Decode_head
      ex_DecodeAddress ex_DecodeAddress ex_AppFromDefinition_0]
  by (simp add: ex_unknown_app_bytes_def ChannelProposal_zero_def)

subsection \<open>Fewer than 2 participants on the encode path\<close>

text \<open>
  C9. \<^verbatim>\<open>Encode\<close> has no lower bound on the number of participants. When the fields
  before the count encode without error, a proposal without participants is encoded with
  the count 0, and a proposal with one participant with the count 1 followed by the
  participant, provided the count and the participant encode without error.
\<close>

theorem Encode_fewer_than_2_participants:
  assumes "wire_Encode_uint64_bigInt x (ChallengeDuration c) (Nonce c) w = (None, w1)"
    and "perunio_Encode x (ParticipantAddr c) (AppDef c) (InitData c) (InitBals c) w1 = (None, w2)"
  shows "(Parts c = [] \<and> wire_Encode_int32 x 0 w2 = (None, w3)
            \<longrightarrow> ChannelProposal_Encode x c w = (None, w3)) \<and>
         (Parts c = [Some a] \<and> wire_Encode_int32 x 1 w2 = (None, w3) \<and>
          Address_Encode x a w3 = (None, w4)
            \<longrightarrow> ChannelProposal_Encode x c w = (None, w4))"
  using assms by (simp add: ChannelProposal_Encode_def MaxInt32_def)

theorem Encode_fewer_than_2_participants_witness:
  "ChannelProposal_Encode ex_externals ex_proposal_0 [] = (None, ex_proposal_head @ [0, 0, 0, 0]) \<and>
   ChannelProposal_Encode ex_externals ex_proposal_1 [] = (None, ex_proposal_1_bytes)"
proof -
  have f: "ChallengeDuration ex_proposal_1 = 100" "Nonce ex_proposal_1 = Some 42"
    "ParticipantAddr ex_proposal_1 = Some 7" "AppDef ex_proposal_1 = Some 2"
    "InitData ex_proposal_1 = Some [5, 6]" "InitBals ex_proposal_1 = Some 1000"
    "Parts ex_proposal_1 = [Some 7]"
    by (simp_all add: ex_proposal_1_def ex_proposal_def)
  have g: "ChallengeDuration ex_proposal_0 = 100" "Nonce ex_proposal_0 = Some 42"
    "ParticipantAddr ex_proposal_0 = Some 7" "AppDef ex_proposal_0 = Some 2"
    "InitData ex_proposal_0 = Some [5, 6]" "InitBals ex_proposal_0 = Some 1000"
    "Parts ex_proposal_0 = []"
    by (simp_all add: ex_proposal_0_def ex_proposal_def)
  have e1: "wire_Encode_uint64_bigInt ex_externals (ChallengeDuration ex_proposal_1)
              (Nonce ex_proposal_1) [] = (None, [0, 0, 0, 0, 0, 0, 0, 100, 1, 42])"
    by (simp add: f ex_Encode_head)
  have e2: "perunio_Encode ex_externals (ParticipantAddr ex_proposal_1)
              (AppDef ex_proposal_1) (InitData ex_proposal_1) (InitBals ex_proposal_1)
              [0, 0, 0, 0, 0, 0, 0, 100, 1, 42] = (None, ex_proposal_head)"
    by (simp add: f ex_perunio_Encode_fields ex_proposal_head_def)
  have e1': "wire_Encode_uint64_bigInt ex_externals (ChallengeDuration ex_proposal_0)
              (Nonce ex_proposal_0) [] = (None, [0, 0, 0, 0, 0, 0, 0, 100, 1, 42])"
    by (simp add: g ex_Encode_head)
  have e2': "perunio_Encode ex_externals (ParticipantAddr ex_proposal_0)
              (AppDef ex_proposal_0) (InitData ex_proposal_0) (InitBals ex_proposal_0)
              [0, 0, 0, 0, 0, 0, 0, 100, 1, 42] = (None, ex_proposal_head)"
    by (simp add: g ex_perunio_Encode_fields ex_proposal_head_def)
  have one: "ChannelProposal_Encode ex_externals ex_proposal_1 [] = (None, ex_proposal_1_bytes)"
    using Encode_fewer_than_2_participants [OF e1 e2, of "ex_proposal_head @ [0, 0, 0, 1]" 7
      "ex_proposal_head @ [0, 0, 0, 1] @ [7]"]
    by (simp add: f ex_Encode_int32_1 ex_Address_Encode ex_proposal_head_def
        ex_proposal_1_bytes_def)
  have none: "ChannelProposal_Encode ex_externals ex_proposal_0 []
                = (None, ex_proposal_head @ [0, 0, 0, 0])"
    using Encode_fewer_than_2_participants [OF e1' e2', of "ex_proposal_head @ [0, 0, 0, 0]"]
    by (simp add: g ex_Encode_int32_0)
  from none one show ?thesis by simp
qed

subsection \<open>Fields assigned before a failure\<close>

lemma Decode_keeps_ChallengeDuration_Nonce:
  assumes "wire_Decode_uint64_bigInt x (ChallengeDuration c) (Nonce c) r = ((None, d, n), r1)"
  shows "ChallengeDuration (fst (snd (ChannelProposal_Decode x c r))) = d \<and>
         Nonce (fst (snd (ChannelProposal_Decode x c r))) = n"
  using assms
  by (simp add: ChannelProposal_Decode_def Let_def split: prod.split option.split)

lemma Decode_keeps_ParticipantAddr:
  assumes "wire_Decode_uint64_bigInt x (ChallengeDuration c) (Nonce c) r = ((None, d, n), r1)"
    and "wallet_DecodeAddress x r1 = ((pa, None), r2)"
  shows "ParticipantAddr (fst (snd (ChannelProposal_Decode x c r))) = pa"
  using assms
  by (simp add: ChannelProposal_Decode_def Let_def split: prod.split option.split)

lemma Decode_keeps_AppDef:
  assumes "wire_Decode_uint64_bigInt x (ChallengeDuration c) (Nonce c) r = ((None, d, n), r1)"
    and "wallet_DecodeAddress x r1 = ((pa, None), r2)"
    and "wallet_DecodeAddress x r2 = ((ad, None), r3)"
  shows "AppDef (fst (snd (ChannelProposal_Decode x c r))) = ad"
  using assms
  by (simp add: ChannelProposal_Decode_def Let_def split: prod.split option.split)

lemma Decode_keeps_InitData:
  assumes "wire_Decode_uint64_bigInt x (ChallengeDuration c) (Nonce c) r = ((None, d, n), r1)"
    and "wallet_DecodeAddress x r1 = ((pa, None), r2)"
    and "wallet_DecodeAddress x r2 = ((ad, None), r3)"
    and "channel_AppFromDefinition x ad = (Some app, None)"
    and "App_DecodeData x app r3 = ((dat, None), r4)"
  shows "InitData (fst (snd (ChannelProposal_Decode x c r))) = dat"
  using assms
  by (simp add: ChannelProposal_Decode_def Let_def split: prod.split option.split)

lemma Decode_keeps_InitBals:
  assumes "wire_Decode_uint64_bigInt x (ChallengeDuration c) (Nonce c) r = ((None, d, n), r1)"
    and "wallet_DecodeAddress x r1 = ((pa, None), r2)"
    and "wallet_DecodeAddress x r2 = ((ad, None), r3)"
    and "channel_AppFromDefinition x ad = (Some app, None)"
    and "App_DecodeData x app r3 = ((dat, None), r4)"
    and "perunio_Decode_Allocation x (Allocation_zero x) r4 = ((None, bals), r5)"
  shows "InitBals (fst (snd (ChannelProposal_Decode x c r))) = Some bals"
  using assms
  by (simp add: ChannelProposal_Decode_def Let_def split: prod.split option.split)

lemma init_decoder_ChannelProposal:
  "ChannelProposal_Decode x ChannelProposal_zero r = (err, m, r') \<Longrightarrow>
   init_decoder x msg_ChannelProposal r = ((Msg_ChannelProposal m, err), r')"
  by simp

text \<open>
  C10. \<^verbatim>\<open>ChannelProposal.Decode\<close> does not undo its assignments. Whatever the call
  returns (in particular when it returns an error), every field whose decoding succeeded
  holds the decoded value in the receiver afterwards: \<^verbatim>\<open>ChallengeDuration\<close> and
  \<^verbatim>\<open>Nonce\<close>, then \<^verbatim>\<open>ParticipantAddr\<close>, \<^verbatim>\<open>AppDef\<close>, \<^verbatim>\<open>InitData\<close> and
  \<^verbatim>\<open>InitBals\<close>, each as far as the fields before it decoded. The decoder that
  \<^verbatim>\<open>init\<close> registers returns the receiver in this state together with the error.
\<close>

theorem Decode_not_atomic:
  assumes dec: "ChannelProposal_Decode x c r = (err, c', r')"
    and s1: "wire_Decode_uint64_bigInt x (ChallengeDuration c) (Nonce c) r = ((None, d, n), r1)"
  shows "ChallengeDuration c' = d \<and> Nonce c' = n \<and>
    (\<forall>pa r2. wallet_DecodeAddress x r1 = ((pa, None), r2) \<longrightarrow>
       ParticipantAddr c' = pa \<and>
       (\<forall>ad r3. wallet_DecodeAddress x r2 = ((ad, None), r3) \<longrightarrow>
          AppDef c' = ad \<and>
          (\<forall>app dat r4. channel_AppFromDefinition x ad = (Some app, None) \<and>
                         App_DecodeData x app r3 = ((dat, None), r4) \<longrightarrow>
             InitData c' = dat \<and>
             (\<forall>bals r5. perunio_Decode_Allocation x (Allocation_zero x) r4 = ((None, bals), r5)
                \<longrightarrow> InitBals c' = Some bals)))) \<and>
    (c = ChannelProposal_zero \<longrightarrow>
       init_decoder x msg_ChannelProposal r = ((Msg_ChannelProposal c', err), r'))"
proof -
  have c': "c' = fst (snd (ChannelProposal_Decode x c r))"
    by (simp add: dec)
  have k1: "ChallengeDuration c' = d \<and> Nonce c' = n"
    unfolding c' by (rule Decode_keeps_ChallengeDuration_Nonce [OF s1])
  have k2: "ParticipantAddr c' = pa" if "wallet_DecodeAddress x r1 = ((pa, None), r2)" for pa r2
    unfolding c' by (rule Decode_keeps_ParticipantAddr [OF s1 that])
  have k3: "AppDef c' = ad"
    if "wallet_DecodeAddress x r1 = ((pa, None), r2)" "wallet_DecodeAddress x r2 = ((ad, None), r3)"
    for pa r2 ad r3
    unfolding c' by (rule Decode_keeps_AppDef [OF s1 that])
  have k4: "InitData c' = dat"
    if "wallet_DecodeAddress x r1 = ((pa, None), r2)" "wallet_DecodeAddress x r2 = ((ad, None), r3)"
      "channel_AppFromDefinition x ad = (Some app, None)" "App_DecodeData x app r3 = ((dat, None), r4)"
    for pa r2 ad r3 app dat r4
    unfolding c' by (rule Decode_keeps_InitData [OF s1 that])
  have k5: "InitBals c' = Some bals"
    if "wallet_DecodeAddress x r1 = ((pa, None), r2)" "wallet_DecodeAddress x r2 = ((ad, None), r3)"
      "channel_AppFromDefinition x ad = (Some app, None)" "App_DecodeData x app r3 = ((dat, None), r4)"
      "perunio_Decode_Allocation x (Allocation_zero x) r4 = ((None, bals), r5)"
    for pa r2 ad r3 app dat r4 bals r5
    unfolding c' by (rule Decode_keeps_InitBals [OF s1 that])
  have k6: "init_decoder x msg_ChannelProposal r = ((Msg_ChannelProposal c', err), r')"
    if "c = ChannelProposal_zero"
    using dec that by (simp add: init_decoder_ChannelProposal)
  show ?thesis
  proof (intro conjI allI impI)
    show "ChallengeDuration c' = d" "Nonce c' = n"
      using k1 by simp_all
  next
    fix pa r2
    assume a2: "wallet_DecodeAddress x r1 = ((pa, None), r2)"
    then show "ParticipantAddr c' = pa" by (rule k2)
    fix ad r3
    assume a3: "wallet_DecodeAddress x r2 = ((ad, None), r3)"
    with a2 show "AppDef c' = ad" by (rule k3)
    fix app dat r4
    assume "channel_AppFromDefinition x ad = (Some app, None) \<and>
            App_DecodeData x app r3 = ((dat, None), r4)"
    then have a4: "channel_AppFromDefinition x ad = (Some app, None)"
      and a5: "App_DecodeData x app r3 = ((dat, None), r4)"
      by simp_all
    from a2 a3 a4 a5 show "InitData c' = dat" by (rule k4)
    fix bals r5
    assume a6: "perunio_Decode_Allocation x (Allocation_zero x) r4 = ((None, bals), r5)"
    from a2 a3 a4 a5 a6 show "InitBals c' = Some bals" by (rule k5)
  next
    assume "c = ChannelProposal_zero"
    then show "init_decoder x msg_ChannelProposal r = ((Msg_ChannelProposal c', err), r')"
      by (rule k6)
  qed
qed

text \<open>
  The example proposal cut off after its allocation: the count cannot be read, the call
  fails with \<^verbatim>\<open>io.EOF\<close>, and the message returned with the error has six fields set.
\<close>

theorem Decode_not_atomic_witness:
  "init_decoder ex_externals msg_ChannelProposal ex_proposal_head
     = ((Msg_ChannelProposal (ex_proposal\<lparr>Parts := []\<rparr>), Some io_EOF), [])"
proof -
  obtain err c' r' where
    dec: "ChannelProposal_Decode ex_externals
            (ChannelProposal_zero :: (byte, byte list, 64 word) ChannelProposal)
            ex_proposal_head = (err, c', r')"
    by (metis surj_pair)
  have z: "ChallengeDuration (ChannelProposal_zero :: (byte, byte list, 64 word) ChannelProposal) = 0"
    "Nonce (ChannelProposal_zero :: (byte, byte list, 64 word) ChannelProposal) = None"
    by (simp_all add: ChannelProposal_zero_def)
  have s1: "wire_Decode_uint64_bigInt ex_externals
              (ChallengeDuration (ChannelProposal_zero :: (byte, byte list, 64 word) ChannelProposal))
              (Nonce (ChannelProposal_zero :: (byte, byte list, 64 word) ChannelProposal))
              ex_proposal_head
            = ((None, 100, Some 42), [7, 2, 5, 6, 0, 0, 0, 0, 0, 0, 3, 232])"
    by (simp add: ex_proposal_head_def ex_Decode_head)
  note na = Decode_not_atomic [OF dec s1]
  from na have f12: "ChallengeDuration c' = 100" "Nonce c' = Some 42"
    by simp_all
  from na ex_DecodeAddress have f3: "ParticipantAddr c' = Some 7"
    by blast
  from na ex_DecodeAddress have f4: "AppDef c' = Some 2"
    by blast
  from na ex_DecodeAddress ex_AppFromDefinition_2 ex_DecodeData_2
  have f5: "InitData c' = Some [5, 6]"
    by blast
  from na ex_DecodeAddress ex_AppFromDefinition_2 ex_DecodeData_2 ex_Decode_Allocation
  have f6: "InitBals c' = Some 1000"
    by blast
  from na have d: "init_decoder ex_externals msg_ChannelProposal ex_proposal_head
                     = ((Msg_ChannelProposal c', err), r')"
    by simp
  have rest: "err = Some io_EOF \<and> Parts c' = [] \<and> r' = []"
    using dec
    by (simp add: ChannelProposal_Decode_def Let_def ex_proposal_head_def ex_Decode_head
        ex_DecodeAddress ex_AppFromDefinition_2 ex_DecodeData_2 ex_Decode_Allocation
        ChannelProposal_zero_def)
      (auto simp add: ex_externals_def ex_wire_Decode_int32_def)
  have "c' = ex_proposal\<lparr>Parts := []\<rparr>"
    using f12 f3 f4 f5 f6 rest by (cases c') (simp add: ex_proposal_def)
  with d rest show ?thesis by simp
qed

subsection \<open>Errors of the participant loop\<close>

lemma ex_255_Encode_head:
  "wire_Encode_uint64_bigInt ex_externals_255 100 (Some 42) w
     = (None, w @ [0, 0, 0, 0, 0, 0, 0, 100, 1, 42])"
  using ex_Encode_head [of w] by (simp add: ex_externals_255_def ex_externals_def)

lemma ex_255_perunio_Encode_fields:
  "perunio_Encode ex_externals_255 (Some 7) (Some 2) (Some [5, 6]) (Some 1000) w
     = (None, w @ [7, 2, 5, 6, 0, 0, 0, 0, 0, 0, 3, 232])"
  using ex_perunio_Encode_fields [of w] by (simp add: ex_externals_255_def ex_externals_def)

lemma ex_255_Encode_int32_2: "wire_Encode_int32 ex_externals_255 2 w = (None, w @ [0, 0, 0, 2])"
  by (simp add: ex_externals_255_def ex_externals_def ex_wire_Encode_int32_def ex_enc32_def)

lemma ex_255_Address_Encode:
  "Address_Encode ex_externals_255 a w
     = (if a = 255 then (Some (External ''invalid address''), w) else (None, w @ [a]))"
  by (simp add: ex_externals_255_def ex_externals_def ex_Address_Encode_def)

lemma ex_255_Encode_SessionID: "wire_Encode_SessionID ex_externals_255 sid w = (None, w @ sid)"
  by (simp add: ex_externals_255_def ex_externals_def ex_wire_Encode_SessionID_def)

text \<open>
  C6. The address codec of this instance refuses the address 255 with the error
  \<^verbatim>\<open>invalid address\<close>. Encoding the proposal whose participant 1 is that address
  returns \<^verbatim>\<open>error encoding participant %d\<close> with the argument 1: the index is named,
  and the codec's error is not among the causes of the returned error.
  \<^verbatim>\<open>ChannelProposalAcc.Encode\<close>, on the same address, returns the codec's error wrapped
  with \<^verbatim>\<open>participant address encoding\<close>.
\<close>

theorem Encode_participant_error_drops_cause:
  "Address_Encode ex_externals_255 255 (ex_proposal_head @ [0, 0, 0, 2, 7])
     = (Some (External ''invalid address''), ex_proposal_head @ [0, 0, 0, 2, 7]) \<and>
   ChannelProposal_Encode ex_externals_255 ex_proposal_255 []
     = (Some (Errorf ''error encoding participant %d'' [1]), ex_proposal_head @ [0, 0, 0, 2, 7]) \<and>
   External ''invalid address'' \<notin> set (causes (Errorf ''error encoding participant %d'' [1])) \<and>
   ChannelProposalAcc_Encode ex_externals_255 (ex_acc\<lparr>Acc_ParticipantAddr := Some 255\<rparr>) []
     = (Some (WithMessage (External ''invalid address'') ''participant address encoding''),
        replicate 32 17) \<and>
   External ''invalid address''
     \<in> set (causes (WithMessage (External ''invalid address'') ''participant address encoding''))"
  by (simp add: ChannelProposal_Encode_def ChannelProposalAcc_Encode_def ex_proposal_255_def
      ex_proposal_def ex_acc_def ex_255_Encode_head ex_255_perunio_Encode_fields MaxInt32_def
      ex_255_Encode_int32_2 ex_255_Address_Encode ex_255_Encode_SessionID ex_proposal_head_def)

subsection \<open>Errors of the accept and reject decoders\<close>

text \<open>
  C7, as stated, fails for \<^verbatim>\<open>ChannelProposalRej\<close>: its \<^verbatim>\<open>Decode\<close> returns the error
  of \<^verbatim>\<open>wire.Decode\<close> as it is. On the empty input the example instance returns
  \<^verbatim>\<open>io.EOF\<close>, which is no \<^verbatim>\<open>WithMessage\<close> error.
\<close>

theorem Rej_Decode_error_not_wrapped:
  "ChannelProposalRej_Decode ex_externals ChannelProposalRej_zero []
     = (Some (External ''EOF''), ChannelProposalRej_zero, []) \<and>
   (\<forall>err msg. External ''EOF'' \<noteq> WithMessage err msg)"
  by (simp add: ChannelProposalRej_Decode_def ex_externals_def
      ex_wire_Decode_SessionID_string_def io_EOF_def ChannelProposalRej_zero_def)

text \<open>
  C7, amended. Every error of \<^verbatim>\<open>ChannelProposalAcc.Decode\<close> is the error of the field
  codec wrapped with the field's message: \<^verbatim>\<open>SID decoding\<close> when \<^verbatim>\<open>wire.Decode\<close>
  failed on the session id, \<^verbatim>\<open>participant address decoding\<close> when
  \<^verbatim>\<open>wallet.DecodeAddress\<close> failed after it. \<^verbatim>\<open>ChannelProposalRej.Decode\<close> adds no
  message: it returns the error of its one \<^verbatim>\<open>wire.Decode\<close> call unchanged.
\<close>

theorem Acc_Rej_Decode_errors:
  "(fst (ChannelProposalAcc_Decode x acc r) = Some e \<longrightarrow>
      (\<exists>err. fst (fst (wire_Decode_SessionID x (Acc_SessID acc) r)) = Some err \<and>
             e = WithMessage err ''SID decoding'') \<or>
      (\<exists>err. fst (fst (wire_Decode_SessionID x (Acc_SessID acc) r)) = None \<and>
             snd (fst (wallet_DecodeAddress x (snd (wire_Decode_SessionID x (Acc_SessID acc) r))))
               = Some err \<and>
             e = WithMessage err ''participant address decoding'')) \<and>
   fst (ChannelProposalRej_Decode x rej r)
     = fst (fst (wire_Decode_SessionID_string x (Rej_SessID rej) (Rej_Reason rej) r))"
  by (auto simp add: ChannelProposalAcc_Decode_def ChannelProposalRej_Decode_def Let_def
      split: prod.splits option.splits)

theorem Acc_Rej_Decode_errors_witness:
  "fst (ChannelProposalAcc_Decode ex_externals ChannelProposalAcc_zero [])
     = Some (WithMessage io_EOF ''SID decoding'') \<and>
   fst (ChannelProposalAcc_Decode ex_externals ChannelProposalAcc_zero (replicate 32 17))
     = Some (WithMessage io_EOF ''participant address decoding'') \<and>
   fst (ChannelProposalRej_Decode ex_externals ChannelProposalRej_zero []) = Some io_EOF"
proof -
  have sid0: "wire_Decode_SessionID ex_externals sid [] = ((Some io_EOF, sid), [])" for sid
    by (simp add: ex_externals_def ex_wire_Decode_SessionID_def)
  have sid1: "wire_Decode_SessionID ex_externals sid (replicate 32 17)
                = ((None, replicate 32 17), [])" for sid
    by (simp add: ex_externals_def ex_wire_Decode_SessionID_def)
  have addr: "wallet_DecodeAddress ex_externals [] = ((None, Some io_EOF), [])"
    by (simp add: ex_externals_def)
  have rej: "wire_Decode_SessionID_string ex_externals sid s [] = ((Some io_EOF, sid, s), [])"
    for sid s
    by (simp add: ex_externals_def ex_wire_Decode_SessionID_string_def)
  have f1: "fst (ChannelProposalAcc_Decode ex_externals ChannelProposalAcc_zero [])
              = Some (WithMessage io_EOF ''SID decoding'')"
    by (simp add: ChannelProposalAcc_Decode_def Let_def sid0)
  have f2: "fst (ChannelProposalAcc_Decode ex_externals ChannelProposalAcc_zero (replicate 32 17))
              = Some (WithMessage io_EOF ''participant address decoding'')"
    by (simp add: ChannelProposalAcc_Decode_def Let_def sid1 addr)
  from Acc_Rej_Decode_errors [of ex_externals ChannelProposalAcc_zero "[]"
      "WithMessage io_EOF ''SID decoding''" ChannelProposalRej_zero]
    Acc_Rej_Decode_errors [of ex_externals ChannelProposalAcc_zero "replicate 32 17"
      "WithMessage io_EOF ''participant address decoding''" ChannelProposalRej_zero]
    f1 f2
  show ?thesis by (simp add: rej)
qed

subsection \<open>The global backend\<close>

text \<open>
  C4. After \<^verbatim>\<open>SetBackend(b)\<close>, whatever was installed before, each of the package-level
  \<^verbatim>\<open>ChannelID\<close>, \<^verbatim>\<open>Sign\<close> and \<^verbatim>\<open>Verify\<close> is one call of the method of \<open>b\<close> with
  the same name, on the same arguments and the same state, and returns what the method
  returns. For the mock of the test, the call record grows by exactly one entry, which
  holds the arguments of the call.
\<close>

theorem global_backend_delegates:
  "ChannelID (SetBackend b registry) p w = Inr (Backend_ChannelID b p w) \<and>
   Sign (SetBackend b registry) a p s w = Inr (Backend_Sign b a p s w) \<and>
   Verify (SetBackend b registry) addr p s sig w = Inr (Backend_Verify b addr p s sig w) \<and>
   ChannelID (SetBackend mockBackend registry') p' calls
     = Inr (Zero, calls @ [Called_ChannelID p']) \<and>
   Sign (SetBackend mockBackend registry') a' p' s' calls
     = Inr (([], None), calls @ [Called_Sign a' p' s']) \<and>
   Verify (SetBackend mockBackend registry') addr' p' s' sig' calls
     = Inr ((False, None), calls @ [Called_Verify addr' p' s' sig'])"
  by (simp add: SetBackend_def ChannelID_def Sign_def Verify_def mockBackend_def)

subsection \<open>The decoded participants\<close>

lemma decodeParts_length: "length (fst (snd (decodeParts x parts i r))) = length parts"
proof (induction x parts i r rule: decodeParts.induct)
  case (1 x parts i r)
  show ?case
  proof (cases "i < length parts")
    case False
    then show ?thesis by (simp add: decodeParts_done)
  next
    case True
    obtain a e r' where d: "wallet_DecodeAddress x r = ((a, e), r')"
      by (metis surj_pair)
    show ?thesis
    proof (cases e)
      case None
      from "1.IH" [OF True d [symmetric] refl] None
      have "length (fst (snd (decodeParts x (parts[i := a]) (Suc i) r'))) = length parts"
        by simp
      with True d None show ?thesis
        by (simp add: decodeParts_unfold)
    next
      case (Some err)
      with True d show ?thesis by (simp add: decodeParts_fail)
    qed
  qed
qed

lemma decodeParts_length_eq: "decodeParts x parts i r = (e, ps, r') \<Longrightarrow> length ps = length parts"
  using decodeParts_length [of x parts i r] by simp

lemma sint_bounds_32:
  "\<not> (n :: 32 word) <s 2 \<Longrightarrow> 2 \<le> nat (sint n) \<and> nat (sint n) \<le> 2147483647"
  using sint_lt [of n] by (simp add: word_sless_alt) arith

text \<open>
  A proposal that \<^verbatim>\<open>ChannelProposal.Decode\<close> decodes without error has at least 2
  and at most \<open>2^31 - 1\<close> participants.
\<close>

theorem Decode_success_participants:
  "fst (ChannelProposal_Decode x c r) = None \<longrightarrow>
     2 \<le> length (Parts (fst (snd (ChannelProposal_Decode x c r)))) \<and>
     int (length (Parts (fst (snd (ChannelProposal_Decode x c r))))) \<le> MaxInt32"
  by (simp add: ChannelProposal_Decode_def Let_def MaxInt32_def split: prod.split option.split)
    (auto dest!: decodeParts_length_eq sint_bounds_32)

lemma ex_proposal_Decode:
  "ChannelProposal_Decode ex_externals c ex_proposal_bytes = (None, ex_proposal, [])"
proof -
  from ChannelProposal_roundtrip [OF ex_proposal_valid, of "[]"] obtain bs where
    e: "ChannelProposal_Encode ex_externals ex_proposal [] = (None, [] @ bs)" and
    d: "\<forall>c rest. ChannelProposal_Decode ex_externals c (bs @ rest) = (None, ex_proposal, rest)"
    by (elim exE conjE)
  from e have "bs = ex_proposal_bytes" by (simp add: ex_proposal_Encode)
  with d [rule_format, of c "[]"] show ?thesis by simp
qed

theorem Decode_success_participants_witness:
  "2 \<le> length (Parts (fst (snd (ChannelProposal_Decode ex_externals
          (ChannelProposal_zero :: (byte, byte list, 64 word) ChannelProposal)
          ex_proposal_bytes)))) \<and>
   int (length (Parts (fst (snd (ChannelProposal_Decode ex_externals
          (ChannelProposal_zero :: (byte, byte list, 64 word) ChannelProposal)
          ex_proposal_bytes))))) \<le> MaxInt32"
proof -
  have h: "fst (ChannelProposal_Decode ex_externals
             (ChannelProposal_zero :: (byte, byte list, 64 word) ChannelProposal)
             ex_proposal_bytes) = None"
    by (simp add: ex_proposal_Decode)
  from Decode_success_participants [THEN mp, OF h] show ?thesis .
qed

subsection \<open>The index in the error of the participant loop\<close>

lemma encodeParts_error:
  "encodeParts x ps i w = (Some e, w') \<Longrightarrow>
     (\<exists>k<length ps. ps ! k = None \<and> e = Panic ''nil pointer dereference'') \<or>
     (\<exists>k<length ps. \<exists>a wk err. ps ! k = Some a \<and> Address_Encode x a wk = (Some err, w') \<and>
        e = Errorf ''error encoding participant %d'' [int (i + k)])"
proof (induction ps arbitrary: i w)
  case Nil
  then show ?case by simp
next
  case (Cons p ps)
  show ?case
  proof (cases p)
    case None
    with Cons.prems have "e = Panic ''nil pointer dereference''" by simp
    with None have "(p # ps) ! 0 = None \<and> e = Panic ''nil pointer dereference''" by simp
    then show ?thesis by blast
  next
    case (Some a)
    obtain err w1 where enc: "Address_Encode x a w = (err, w1)"
      by (metis surj_pair)
    show ?thesis
    proof (cases err)
      case (Some err')
      with Cons.prems \<open>p = Some a\<close> enc
      have "e = Errorf ''error encoding participant %d'' [int (i + 0)]" and "w1 = w'"
        by simp_all
      with \<open>p = Some a\<close> enc Some
      have "(p # ps) ! 0 = Some a \<and> Address_Encode x a w = (Some err', w') \<and>
            e = Errorf ''error encoding participant %d'' [int (i + 0)]"
        by simp
      then show ?thesis by blast
    next
      case None
      with Cons.prems \<open>p = Some a\<close> enc
      have "encodeParts x ps (Suc i) w1 = (Some e, w')" by simp
      from Cons.IH [OF this] show ?thesis
      proof
        assume "\<exists>k<length ps. ps ! k = None \<and> e = Panic ''nil pointer dereference''"
        then obtain k where "k < length ps" "ps ! k = None" "e = Panic ''nil pointer dereference''"
          by blast
        then have "Suc k < length (p # ps) \<and> (p # ps) ! Suc k = None \<and>
                   e = Panic ''nil pointer dereference''"
          by simp
        then show ?thesis by blast
      next
        assume "\<exists>k<length ps. \<exists>a wk err. ps ! k = Some a \<and>
                  Address_Encode x a wk = (Some err, w') \<and>
                  e = Errorf ''error encoding participant %d'' [int (Suc i + k)]"
        then obtain k a' wk err' where "k < length ps" "ps ! k = Some a'"
          "Address_Encode x a' wk = (Some err', w')"
          "e = Errorf ''error encoding participant %d'' [int (Suc i + k)]"
          by blast
        then have "Suc k < length (p # ps) \<and> (p # ps) ! Suc k = Some a' \<and>
                   Address_Encode x a' wk = (Some err', w') \<and>
                   e = Errorf ''error encoding participant %d'' [int (i + Suc k)]"
          by simp
        then show ?thesis by blast
      qed
    qed
  qed
qed

text \<open>
  When \<^verbatim>\<open>ChannelProposal.Encode\<close> fails in its participant loop (the fields and
  the count before it were written without error), the error is either the panic of a
  nil participant or \<^verbatim>\<open>error encoding participant %d\<close> whose argument is the index of
  a participant whose \<^verbatim>\<open>Encode\<close> returned an error.
\<close>

theorem Encode_participant_error_index:
  assumes "wire_Encode_uint64_bigInt x (ChallengeDuration c) (Nonce c) w = (None, w1)"
    and "perunio_Encode x (ParticipantAddr c) (AppDef c) (InitData c) (InitBals c) w1 = (None, w2)"
    and "int (length (Parts c)) \<le> MaxInt32"
    and "wire_Encode_int32 x (word_of_nat (length (Parts c))) w2 = (None, w3)"
    and "ChannelProposal_Encode x c w = (Some e, w')"
  shows "(\<exists>k<length (Parts c). Parts c ! k = None \<and> e = Panic ''nil pointer dereference'') \<or>
     (\<exists>k<length (Parts c). \<exists>a wk err. Parts c ! k = Some a \<and>
        Address_Encode x a wk = (Some err, w') \<and>
        e = Errorf ''error encoding participant %d'' [int k])"
proof -
  from assms have "encodeParts x (Parts c) 0 w3 = (Some e, w')"
    by (simp add: ChannelProposal_Encode_def)
  from encodeParts_error [OF this] show ?thesis by simp
qed

lemma ex_255_Encode:
  "ChannelProposal_Encode ex_externals_255 ex_proposal_255 []
     = (Some (Errorf ''error encoding participant %d'' [1]), ex_proposal_head @ [0, 0, 0, 2, 7])"
  by (simp add: ChannelProposal_Encode_def ex_proposal_255_def ex_proposal_def
      ex_255_Encode_head ex_255_perunio_Encode_fields MaxInt32_def
      ex_255_Encode_int32_2 ex_255_Address_Encode ex_proposal_head_def)

theorem Encode_participant_error_index_witness:
  "(\<exists>k<length (Parts ex_proposal_255). Parts ex_proposal_255 ! k = None \<and>
      Errorf ''error encoding participant %d'' [1] = Panic ''nil pointer dereference'') \<or>
   (\<exists>k<length (Parts ex_proposal_255). \<exists>a wk err. Parts ex_proposal_255 ! k = Some a \<and>
      Address_Encode ex_externals_255 a wk = (Some err, ex_proposal_head @ [0, 0, 0, 2, 7]) \<and>
      Errorf ''error encoding participant %d'' [1]
        = Errorf ''error encoding participant %d'' [int k])"
proof -
  have f: "ChallengeDuration ex_proposal_255 = 100" "Nonce ex_proposal_255 = Some 42"
    "ParticipantAddr ex_proposal_255 = Some 7" "AppDef ex_proposal_255 = Some 2"
    "InitData ex_proposal_255 = Some [5, 6]" "InitBals ex_proposal_255 = Some 1000"
    "length (Parts ex_proposal_255) = 2"
    by (simp_all add: ex_proposal_255_def ex_proposal_def)
  have e1: "wire_Encode_uint64_bigInt ex_externals_255 (ChallengeDuration ex_proposal_255)
              (Nonce ex_proposal_255) [] = (None, [0, 0, 0, 0, 0, 0, 0, 100, 1, 42])"
    by (simp add: f ex_255_Encode_head)
  have e2: "perunio_Encode ex_externals_255 (ParticipantAddr ex_proposal_255)
              (AppDef ex_proposal_255) (InitData ex_proposal_255) (InitBals ex_proposal_255)
              [0, 0, 0, 0, 0, 0, 0, 100, 1, 42] = (None, ex_proposal_head)"
    by (simp add: f ex_255_perunio_Encode_fields ex_proposal_head_def)
  have e3: "int (length (Parts ex_proposal_255)) \<le> MaxInt32"
    by (simp add: f MaxInt32_def)
  have e4: "wire_Encode_int32 ex_externals_255 (word_of_nat (length (Parts ex_proposal_255)))
              ex_proposal_head = (None, ex_proposal_head @ [0, 0, 0, 2])"
    by (simp add: f ex_255_Encode_int32_2)
  from Encode_participant_error_index [OF e1 e2 e3 e4 ex_255_Encode] show ?thesis .
qed

end
